theory Spec2Isabelle
  imports Complex_Main "HOL-Library.Word" "HOL-Library.Multiset" "HOL-Library.Stream"
begin

section \<open>JavaScript values\<close>

text \<open>
  A JavaScript string is a sequence of 16-bit code units. String literals of the source are
  written \<open>js ''...''\<close>. The two exceptions the modelled handlers can raise are the
  \<open>SyntaxError\<close> of \<open>JSON.parse\<close> and the \<open>TypeError\<close> of a call on a value that has no such
  method (or of a property read on \<open>null\<close> / \<open>undefined\<close>).
\<close>

type_synonym jsstring = "16 word list"

definition js :: "string \<Rightarrow> jsstring" where
  "js s = map of_char s"

datatype js_error = SyntaxError | TypeError

text \<open>
  What \<open>JSON.parse\<close> returns. The program never computes with a number and compares one with
  strings only, so a number is kept as its lexeme, and \<open>JSON.stringify\<close> prints the lexeme back
  where JavaScript prints the number in its shortest form. An object is the list of its
  members in property order.
\<close>

datatype json =
    JNull
  | JBool bool
  | JNum jsstring
  | JStr jsstring
  | JArr "json list"
  | JObj "(jsstring \<times> json) list"

subsection \<open>JSON.parse\<close>

text \<open>
  The platform's \<open>JSON.parse\<close>, following the JSON grammar (ECMA-404): a lexer over code units
  and a pushdown recogniser over the tokens. \<open>None\<close> stands for the \<open>SyntaxError\<close> it throws.
\<close>

datatype token =
    TLBrace | TRBrace | TLBrack | TRBrack | TColon | TComma
  | TTrue | TFalse | TNull
  | TNum jsstring
  | TStr jsstring

definition is_ws :: "16 word \<Rightarrow> bool" where
  "is_ws c = (c = 0x20 \<or> c = 0x09 \<or> c = 0x0A \<or> c = 0x0D)"

definition is_digit :: "16 word \<Rightarrow> bool" where
  "is_digit c = (0x30 \<le> c \<and> c \<le> 0x39)"

definition hexval :: "16 word \<Rightarrow> nat option" where
  "hexval c =
     (if 0x30 \<le> c \<and> c \<le> 0x39 then Some (unat c - 0x30)
      else if 0x41 \<le> c \<and> c \<le> 0x46 then Some (unat c - 0x37)
      else if 0x61 \<le> c \<and> c \<le> 0x66 then Some (unat c - 0x57)
      else None)"

definition hex4 :: "16 word \<Rightarrow> 16 word \<Rightarrow> 16 word \<Rightarrow> 16 word \<Rightarrow> 16 word option" where
  "hex4 a b c d =
     (case (hexval a, hexval b, hexval c, hexval d) of
        (Some w, Some x, Some y, Some z) \<Rightarrow> Some (of_nat (((w * 16 + x) * 16 + y) * 16 + z))
      | _ \<Rightarrow> None)"

text \<open>The single-character escapes: quote, backslash, slash, b, f, n, r, t.\<close>

definition unescape :: "16 word \<Rightarrow> 16 word option" where
  "unescape e =
     (if e = 0x22 then Some 0x22
      else if e = 0x5C then Some 0x5C
      else if e = 0x2F then Some 0x2F
      else if e = 0x62 then Some 0x08
      else if e = 0x66 then Some 0x0C
      else if e = 0x6E then Some 0x0A
      else if e = 0x72 then Some 0x0D
      else if e = 0x74 then Some 0x09
      else None)"

text \<open>
  \<open>lex_string\<close> reads a string literal after its opening quote and returns the decoded string
  with the input after the closing quote. A raw control character ends the parse.
\<close>

fun lex_string :: "jsstring \<Rightarrow> (jsstring \<times> jsstring) option" where
  "lex_string [] = None"
| "lex_string (c # cs) =
     (if c = 0x22 then Some ([], cs)
      else if c = 0x5C then
        (case cs of
           [] \<Rightarrow> None
         | e # es \<Rightarrow>
             if e = 0x75 then
               (case es of
                  h1 # h2 # h3 # h4 # r \<Rightarrow>
                    (case hex4 h1 h2 h3 h4 of
                       None \<Rightarrow> None
                     | Some u \<Rightarrow>
                         (case lex_string r of
                            None \<Rightarrow> None
                          | Some (s, rest) \<Rightarrow> Some (u # s, rest)))
                | _ \<Rightarrow> None)
             else
               (case unescape e of
                  None \<Rightarrow> None
                | Some d \<Rightarrow>
                    (case lex_string es of
                       None \<Rightarrow> None
                     | Some (s, rest) \<Rightarrow> Some (d # s, rest))))
      else if c < 0x20 then None
      else
        (case lex_string cs of
           None \<Rightarrow> None
         | Some (s, rest) \<Rightarrow> Some (c # s, rest)))"

text \<open>Numbers: \<open>-? (0 | [1-9][0-9]*) (. [0-9]+)? ([eE] [+-]? [0-9]+)?\<close>.\<close>

definition lex_exponent :: "jsstring \<Rightarrow> jsstring \<Rightarrow> (jsstring \<times> jsstring) option" where
  "lex_exponent acc s =
     (case s of
        [] \<Rightarrow> Some (acc, s)
      | e # r \<Rightarrow>
          if e = 0x65 \<or> e = 0x45 then
            (let sg = (case r of [] \<Rightarrow> [] | x # _ \<Rightarrow> if x = 0x2B \<or> x = 0x2D then [x] else []);
                 r1 = drop (length sg) r;
                 ds = takeWhile is_digit r1
             in if ds = [] then None else Some (acc @ e # sg @ ds, dropWhile is_digit r1))
          else Some (acc, s))"

definition lex_fraction :: "jsstring \<Rightarrow> jsstring \<Rightarrow> (jsstring \<times> jsstring) option" where
  "lex_fraction acc s =
     (case s of
        [] \<Rightarrow> lex_exponent acc s
      | p # r \<Rightarrow>
          if p = 0x2E then
            (let ds = takeWhile is_digit r
             in if ds = [] then None else lex_exponent (acc @ p # ds) (dropWhile is_digit r))
          else lex_exponent acc s)"

definition lex_number :: "jsstring \<Rightarrow> (jsstring \<times> jsstring) option" where
  "lex_number s =
     (let sg = (case s of [] \<Rightarrow> [] | x # _ \<Rightarrow> if x = 0x2D then [x] else []);
          s1 = drop (length sg) s
      in case s1 of
           [] \<Rightarrow> None
         | d # ds \<Rightarrow>
             if d = 0x30 then lex_fraction (sg @ [d]) ds
             else if is_digit d then
               lex_fraction (sg @ d # takeWhile is_digit ds) (dropWhile is_digit ds)
             else None)"

lemma lex_string_rest: "lex_string cs = Some (s, rest) \<Longrightarrow> length rest < length cs"
  by (induction cs arbitrary: s rest rule: lex_string.induct)
     (fastforce split: if_splits list.splits option.splits)+

lemma lex_exponent_rest: "lex_exponent acc s = Some (n, rest) \<Longrightarrow> length rest \<le> length s"
  by (auto simp: lex_exponent_def Let_def split: list.splits if_splits
           intro: order_trans [OF length_dropWhile_le])

lemma lex_fraction_rest: "lex_fraction acc s = Some (n, rest) \<Longrightarrow> length rest \<le> length s"
  by (auto simp: lex_fraction_def Let_def split: list.splits if_splits
           dest!: lex_exponent_rest intro: order_trans [OF _ length_dropWhile_le] le_SucI)

lemma lex_number_rest: "lex_number s = Some (n, rest) \<Longrightarrow> length rest < length s"
proof -
  assume a: "lex_number s = Some (n, rest)"
  define sg where "sg = (case s of [] \<Rightarrow> [] | x # _ \<Rightarrow> if x = (0x2D::16 word) then [x] else [])"
  define s1 where "s1 = drop (length sg) s"
  from a obtain d ds where s1: "s1 = d # ds"
    by (cases s1) (auto simp: lex_number_def Let_def sg_def s1_def)
  have len: "length s1 \<le> length s" by (simp add: s1_def)
  from a s1 have "length rest \<le> length ds"
    by (auto simp: lex_number_def Let_def sg_def [symmetric] s1_def [symmetric]
             split: if_splits dest!: lex_fraction_rest
             intro: order_trans [OF _ length_dropWhile_le])
  with s1 len show ?thesis by simp
qed

function lex :: "jsstring \<Rightarrow> token list option" where
  "lex [] = Some []"
| "lex (c # cs) =
     (if is_ws c then lex cs
      else if c = 0x7B then map_option (Cons TLBrace) (lex cs)
      else if c = 0x7D then map_option (Cons TRBrace) (lex cs)
      else if c = 0x5B then map_option (Cons TLBrack) (lex cs)
      else if c = 0x5D then map_option (Cons TRBrack) (lex cs)
      else if c = 0x3A then map_option (Cons TColon) (lex cs)
      else if c = 0x2C then map_option (Cons TComma) (lex cs)
      else if c = 0x22 then
        (case lex_string cs of
           None \<Rightarrow> None
         | Some (s, rest) \<Rightarrow> map_option (Cons (TStr s)) (lex rest))
      else if c = 0x2D \<or> is_digit c then
        (case lex_number (c # cs) of
           None \<Rightarrow> None
         | Some (n, rest) \<Rightarrow> map_option (Cons (TNum n)) (lex rest))
      else if take 4 (c # cs) = js ''true'' then map_option (Cons TTrue) (lex (drop 3 cs))
      else if take 5 (c # cs) = js ''false'' then map_option (Cons TFalse) (lex (drop 4 cs))
      else if take 4 (c # cs) = js ''null'' then map_option (Cons TNull) (lex (drop 3 cs))
      else None)"
  by pat_completeness auto
termination
  by (relation "measure length")
     (auto dest: lex_string_rest lex_number_rest)

text \<open>
  A member read from the text is added to the object by CreateDataProperty: a name the object
  has already keeps its place and takes the new value. The property order of an object
  (OrdinaryOwnPropertyKeys) has the names that are array indices first, in ascending order, and
  then the other names in the order in which they were added. An array index is the decimal
  numeral, with no leading zero, of a number below \<open>2^32 - 1\<close>.
\<close>

definition array_index :: "jsstring \<Rightarrow> nat option" where
  "array_index k =
     (let n = foldl (\<lambda>n c. 10 * n + (unat c - 48)) 0 k
      in if k \<noteq> [] \<and> list_all is_digit k \<and> (hd k \<noteq> 0x30 \<or> length k = 1) \<and> n < 4294967295
         then Some n else None)"

definition comes_before :: "jsstring \<Rightarrow> jsstring \<Rightarrow> bool" where
  "comes_before k k' =
     (case array_index k of
        None \<Rightarrow> False
      | Some i \<Rightarrow> (case array_index k' of None \<Rightarrow> True | Some j \<Rightarrow> i < j))"

fun put_member :: "jsstring \<Rightarrow> json \<Rightarrow> (jsstring \<times> json) list \<Rightarrow> (jsstring \<times> json) list" where
  "put_member k v [] = [(k, v)]"
| "put_member k v ((k', v') # kvs) =
     (if k' = k then (k', v) # kvs
      else if comes_before k k' then (k, v) # (k', v') # kvs
      else (k', v') # put_member k v kvs)"

text \<open>
  The recogniser keeps a stack of the containers that are open. An array under construction
  holds its elements last first, an object its members in property order. \<open>InObjKey kvs k\<close> is
  an object whose member \<open>k\<close> awaits its value.
\<close>

datatype frame =
    InArr "json list"
  | InObj "(jsstring \<times> json) list"
  | InObjKey "(jsstring \<times> json) list" jsstring

datatype mode =
    Value | ValueOrClose | KeyOrClose | Key | Colon | CommaOrClose | End json | Reject

fun deliver :: "json \<Rightarrow> frame list \<Rightarrow> mode \<times> frame list" where
  "deliver v [] = (End v, [])"
| "deliver v (InArr vs # st) = (CommaOrClose, InArr (v # vs) # st)"
| "deliver v (InObjKey kvs k # st) = (CommaOrClose, InObj (put_member k v kvs) # st)"
| "deliver v (InObj kvs # st) = (Reject, st)"

fun begin_value :: "token \<Rightarrow> frame list \<Rightarrow> mode \<times> frame list" where
  "begin_value TTrue st = deliver (JBool True) st"
| "begin_value TFalse st = deliver (JBool False) st"
| "begin_value TNull st = deliver JNull st"
| "begin_value (TNum n) st = deliver (JNum n) st"
| "begin_value (TStr s) st = deliver (JStr s) st"
| "begin_value TLBrack st = (ValueOrClose, InArr [] # st)"
| "begin_value TLBrace st = (KeyOrClose, InObj [] # st)"
| "begin_value _ st = (Reject, st)"

fun step :: "mode \<Rightarrow> frame list \<Rightarrow> token \<Rightarrow> mode \<times> frame list" where
  "step Value st t = begin_value t st"
| "step ValueOrClose (InArr vs # st) TRBrack = deliver (JArr (rev vs)) st"
| "step ValueOrClose st t = begin_value t st"
| "step KeyOrClose (InObj kvs # st) TRBrace = deliver (JObj kvs) st"
| "step KeyOrClose (InObj kvs # st) (TStr k) = (Colon, InObjKey kvs k # st)"
| "step Key (InObj kvs # st) (TStr k) = (Colon, InObjKey kvs k # st)"
| "step Colon st TColon = (Value, st)"
| "step CommaOrClose (InArr vs # st) TComma = (Value, InArr vs # st)"
| "step CommaOrClose (InArr vs # st) TRBrack = deliver (JArr (rev vs)) st"
| "step CommaOrClose (InObj kvs # st) TComma = (Key, InObj kvs # st)"
| "step CommaOrClose (InObj kvs # st) TRBrace = deliver (JObj kvs) st"
| "step _ st _ = (Reject, st)"

fun parse_tokens :: "mode \<Rightarrow> frame list \<Rightarrow> token list \<Rightarrow> json option" where
  "parse_tokens (End v) st [] = Some v"
| "parse_tokens m st [] = None"
| "parse_tokens m st (t # ts) = (case step m st t of (m', st') \<Rightarrow> parse_tokens m' st' ts)"

definition JSON_parse :: "jsstring \<Rightarrow> json option" where
  "JSON_parse s = (case lex s of None \<Rightarrow> None | Some ts \<Rightarrow> parse_tokens Value [] ts)"

subsection \<open>JSON.stringify\<close>

text \<open>
  \<open>QuoteJSONString\<close> of ECMAScript: the short escapes, a u-escape of four lower-case hex digits for the
  other control characters and for a surrogate that has no partner, everything else as it is.
\<close>

definition hexdigit :: "nat \<Rightarrow> 16 word" where
  "hexdigit n = (if n < 10 then of_nat (0x30 + n) else of_nat (0x57 + n))"

definition unicode_escape :: "16 word \<Rightarrow> jsstring" where
  "unicode_escape c =
     [0x5C, 0x75, hexdigit (unat c div 4096), hexdigit (unat c div 256 mod 16),
      hexdigit (unat c div 16 mod 16), hexdigit (unat c mod 16)]"

definition is_high_surrogate :: "16 word \<Rightarrow> bool" where
  "is_high_surrogate c = (0xD800 \<le> c \<and> c \<le> 0xDBFF)"

definition is_low_surrogate :: "16 word \<Rightarrow> bool" where
  "is_low_surrogate c = (0xDC00 \<le> c \<and> c \<le> 0xDFFF)"

definition quote_unit :: "16 word \<Rightarrow> jsstring" where
  "quote_unit c =
     (if c = 0x08 then [0x5C, 0x62]
      else if c = 0x09 then [0x5C, 0x74]
      else if c = 0x0A then [0x5C, 0x6E]
      else if c = 0x0C then [0x5C, 0x66]
      else if c = 0x0D then [0x5C, 0x72]
      else if c = 0x22 then [0x5C, 0x22]
      else if c = 0x5C then [0x5C, 0x5C]
      else if c < 0x20 \<or> is_high_surrogate c \<or> is_low_surrogate c then unicode_escape c
      else [c])"

fun quote_body :: "jsstring \<Rightarrow> jsstring" where
  "quote_body [] = []"
| "quote_body [c] = quote_unit c"
| "quote_body (c # d # cs) =
     (if is_high_surrogate c \<and> is_low_surrogate d then c # d # quote_body cs
      else quote_unit c @ quote_body (d # cs))"

definition QuoteJSONString :: "jsstring \<Rightarrow> jsstring" where
  "QuoteJSONString s = 0x22 # quote_body s @ [0x22]"

fun join_comma :: "jsstring list \<Rightarrow> jsstring" where
  "join_comma [] = []"
| "join_comma [x] = x"
| "join_comma (x # y # ys) = x @ 0x2C # join_comma (y # ys)"

fun JSON_stringify :: "json \<Rightarrow> jsstring" where
  "JSON_stringify JNull = js ''null''"
| "JSON_stringify (JBool b) = (if b then js ''true'' else js ''false'')"
| "JSON_stringify (JNum n) = n"
| "JSON_stringify (JStr s) = QuoteJSONString s"
| "JSON_stringify (JArr vs) = 0x5B # join_comma (map JSON_stringify vs) @ [0x5D]"
| "JSON_stringify (JObj kvs) =
     0x7B # join_comma (map (\<lambda>(k, v). QuoteJSONString k @ 0x3A # JSON_stringify v) kvs) @ [0x7D]"

section \<open>Durable storage\<close>

text \<open>
  \<open>localStorage\<close>, restricted to the three keys the modelled code reads and writes, one field
  for each key. A field is \<open>None\<close> when \<open>getItem\<close> returns \<open>null\<close>; \<open>setItem\<close> and \<open>removeItem\<close> are
  field updates.
\<close>

record localStorage =
  femmoraUser :: "jsstring option"
  femmoraLanguage :: "jsstring option"
  femmoraSeenQuizQuestions :: "jsstring option"

section \<open>Session store (contexts/AuthContext.tsx)\<close>

text \<open>
  Modelled from the spec: the \<open>User\<close> interface of \<open>types.ts\<close>, which is not among the source
  files. The spec gives it as \<open>{id: string, name: string, email: string}\<close>, and these are the
  fields the callers of \<open>login\<close> pass (LoginScreen.tsx line 39, RegistrationScreen.tsx line 52).
  \<open>User_json\<close> is the object such a record is at run time, members in the order of the object
  literal.
\<close>

record User =
  user_id :: jsstring
  user_name :: jsstring
  user_email :: jsstring

definition User_json :: "User \<Rightarrow> json" where
  "User_json u =
     JObj [(js ''id'', JStr (user_id u)), (js ''name'', JStr (user_name u)),
           (js ''email'', JStr (user_email u))]"

text \<open>
  The provider's state. \<open>user\<close> is a run-time value: \<open>null\<close> (\<open>JNull\<close>), the object \<open>login\<close> was
  given, or whatever \<open>JSON.parse\<close> returned (the cast to \<open>User\<close> of line 42 checks nothing).
\<close>

record auth =
  isAuthenticated :: bool
  user :: json
  loading :: bool

definition AuthProvider_initial :: auth where
  "AuthProvider_initial = \<lparr>isAuthenticated = False, user = JNull, loading = True\<rparr>"

text \<open>
  Mounting the provider (process start): the \<open>useState\<close> initial values followed by the effect
  of lines 36-53.
\<close>

definition AuthProvider_mount :: "localStorage \<Rightarrow> auth \<times> localStorage" where
  "AuthProvider_mount ls =
     (case femmoraUser ls of
        None \<Rightarrow> (AuthProvider_initial\<lparr>loading := False\<rparr>, ls)
      | Some storedUser \<Rightarrow>
          if storedUser = [] then (AuthProvider_initial\<lparr>loading := False\<rparr>, ls)
          else
            (case JSON_parse storedUser of
               Some parsedUser \<Rightarrow>
                 (AuthProvider_initial
                    \<lparr>user := parsedUser, isAuthenticated := True, loading := False\<rparr>, ls)
             | None \<Rightarrow>
                 (AuthProvider_initial\<lparr>loading := False\<rparr>, ls\<lparr>femmoraUser := None\<rparr>)))"

definition login :: "User \<Rightarrow> auth \<times> localStorage \<Rightarrow> auth \<times> localStorage" where
  "login userData s =
     (case s of (a, ls) \<Rightarrow>
        (a\<lparr>user := User_json userData, isAuthenticated := True\<rparr>,
         ls\<lparr>femmoraUser := Some (JSON_stringify (User_json userData))\<rparr>))"

definition logout :: "auth \<times> localStorage \<Rightarrow> auth \<times> localStorage" where
  "logout s =
     (case s of (a, ls) \<Rightarrow>
        (a\<lparr>user := JNull, isAuthenticated := False\<rparr>, ls\<lparr>femmoraUser := None\<rparr>))"

section \<open>Preference store (LanguageContext.tsx)\<close>

text \<open>
  Modelled from the spec: the \<open>Language\<close> enumeration of \<open>types.ts\<close>, which is not among the
  source files. The spec gives the three members EN, HI, TA and says that each is persisted as
  "a short string code"; the codes are taken to be the lower-case language codes. At run time a
  \<open>Language\<close> is a string, so the current language is a \<open>jsstring\<close>.
\<close>

definition Language_EN :: jsstring where
  "Language_EN = js ''en''"

definition Language_HI :: jsstring where
  "Language_HI = js ''hi''"

definition Language_TA :: jsstring where
  "Language_TA = js ''ta''"

text \<open>The initialiser of the \<open>language\<close> state, lines 31-34: \<open>storedLang || Language.EN\<close>.\<close>

definition LanguageProvider_init :: "localStorage \<Rightarrow> jsstring" where
  "LanguageProvider_init ls =
     (case femmoraLanguage ls of
        None \<Rightarrow> Language_EN
      | Some storedLang \<Rightarrow> if storedLang = [] then Language_EN else storedLang)"

definition setLanguage :: "jsstring \<Rightarrow> jsstring \<times> localStorage \<Rightarrow> jsstring \<times> localStorage" where
  "setLanguage lang s = (case s of (language, ls) \<Rightarrow> (lang, ls\<lparr>femmoraLanguage := Some lang\<rparr>))"

text \<open>
  The table \<open>UI_TEXT\<close> of \<open>constants.ts\<close> is not among the source files, so \<open>translate\<close> takes it
  as a parameter: the entries of the object literal (pairwise different keys), each key with the
  entries of its per-language object literal.

  \<open>UI_TEXT[key]\<close> and \<open>translationsForKey[language]\<close> are property reads of JavaScript (OrdinaryGet):
  an own entry of the object is found first, and a name the object does not have itself is
  looked up along the prototype chain. Both literals inherit from \<open>Object.prototype\<close>, whose
  members with a string name are the ones ECMAScript gives it (Annex B included). Every one of
  them is a function, except \<open>__proto__\<close>, which reads as \<open>Object.prototype\<close> itself; read
  through \<open>constructor\<close> the function is \<open>Object\<close>.
\<close>

type_synonym Translations = "(jsstring \<times> (jsstring \<times> jsstring) list) list"

definition Object_prototype_names :: "jsstring list" where
  "Object_prototype_names =
     map js [''constructor'', ''__defineGetter__'', ''__defineSetter__'', ''hasOwnProperty'',
             ''__lookupGetter__'', ''__lookupSetter__'', ''isPrototypeOf'', ''propertyIsEnumerable'',
             ''toString'', ''valueOf'', ''__proto__'', ''toLocaleString'']"

text \<open>
  What a property read can give: \<open>undefined\<close>, a string, or a value of another type (a function,
  an object, a number, ...), of which only the outcome of the test \<open>if (v)\<close> matters here.
\<close>

datatype jsvalue = JSundefined | JSstring jsstring | JSother bool

fun truthy :: "jsvalue \<Rightarrow> bool" where
  "truthy JSundefined = False"
| "truthy (JSstring s) = (s \<noteq> [])"
| "truthy (JSother b) = b"

text \<open>
  \<open>translationsForKey[language]\<close> on a per-language object literal: its own string, else the member
  inherited from \<open>Object.prototype\<close> (a function or an object, so truthy and not a string), else
  \<open>undefined\<close>.
\<close>

definition get_translation :: "(jsstring \<times> jsstring) list \<Rightarrow> jsstring \<Rightarrow> jsvalue" where
  "get_translation translationsForKey language =
     (case map_of translationsForKey language of
        Some t \<Rightarrow> JSstring t
      | None \<Rightarrow> if language \<in> set Object_prototype_names then JSother True else JSundefined)"

text \<open>
  \<open>translate\<close>, lines 54-61. When the table has no entry of its own for the key and the key names
  a member of \<open>Object.prototype\<close>, \<open>translationsForKey\<close> is that member (truthy), and line 56 reads
  its property \<open>language\<close>. What the built-in functions and objects have as properties (\<open>name\<close>,
  \<open>length\<close>, \<open>call\<close>, the static methods of \<open>Object\<close>, the throwing accessor \<open>caller\<close>, ...) belongs to
  the engine, so that read is the parameter \<open>builtin\<close>: \<open>builtin m p\<close> is the outcome of reading the
  property \<open>p\<close> of the member of \<open>Object.prototype\<close> named \<open>m\<close>, a value or an exception. The result
  of \<open>translate\<close> is a JavaScript value, which the type annotation \<open>string\<close> does not check at run
  time, or the exception.
\<close>

definition translate ::
  "(jsstring \<Rightarrow> jsstring \<Rightarrow> js_error + jsvalue) \<Rightarrow> Translations \<Rightarrow> jsstring \<Rightarrow> jsstring
     \<Rightarrow> jsstring option \<Rightarrow> js_error + jsvalue" where
  "translate builtin UI_TEXT language key defaultText =
     (let fallback = JSstring (case defaultText of
                                 None \<Rightarrow> key
                               | Some d \<Rightarrow> if d = [] then key else d)
      in case map_of UI_TEXT key of
           Some translationsForKey \<Rightarrow>
             (let v = get_translation translationsForKey language
              in if truthy v then Inr v else Inr fallback)
         | None \<Rightarrow>
             if key \<in> set Object_prototype_names
             then (case builtin key language of
                     Inl e \<Rightarrow> Inl e
                   | Inr v \<Rightarrow> if truthy v then Inr v else Inr fallback)
             else Inr fallback)"

section \<open>Registration (screens/auth/RegistrationScreen.tsx)\<close>

text \<open>
  \<open>APP_ROUTES\<close> is declared in \<open>constants.ts\<close>, which is not among the source files; only the two
  routes the registration and login screens name are needed.
\<close>

datatype APP_ROUTES = HOME | LOGIN

record RegistrationScreen =
  name :: jsstring
  email :: jsstring
  password :: jsstring
  confirmPassword :: jsstring
  error :: jsstring

text \<open>What a handler asks of its collaborators: the calls it makes, in order.\<close>

datatype call = Call_login User | Call_navigate APP_ROUTES

text \<open>
  \<open>handleSubmit\<close>, lines 34-57. \<open>now\<close> is \<open>Date.now().toString()\<close>. The result is the form state
  after the handler and the calls it made.
\<close>

definition handleSubmit :: "jsstring \<Rightarrow> RegistrationScreen \<Rightarrow> RegistrationScreen \<times> call list" where
  "handleSubmit now f =
     (if password f \<noteq> confirmPassword f then
        (f\<lparr>error := js ''Passwords do not match.''\<rparr>, [])
      else if name f = [] \<or> email f = [] \<or> password f = [] then
        (f\<lparr>error := js ''Please fill in all fields.''\<rparr>, [])
      else
        (f\<lparr>error := []\<rparr>,
         [Call_login \<lparr>user_id = now, user_name = name f, user_email = email f\<rparr>,
          Call_navigate HOME]))"

text \<open>The screen inside the application: session store, durable storage and current route.\<close>

record app =
  form :: RegistrationScreen
  session :: auth
  storage :: localStorage
  route :: APP_ROUTES

fun perform :: "call \<Rightarrow> app \<Rightarrow> app" where
  "perform (Call_login u) a =
     (case login u (session a, storage a) of (s, ls) \<Rightarrow> a\<lparr>session := s, storage := ls\<rparr>)"
| "perform (Call_navigate r) a = a\<lparr>route := r\<rparr>"

definition submit_registration :: "jsstring \<Rightarrow> app \<Rightarrow> app" where
  "submit_registration now a =
     (case handleSubmit now (form a) of (f, calls) \<Rightarrow> fold perform calls (a\<lparr>form := f\<rparr>))"

section \<open>Quiz rotation (BrainQuizzesScreen.tsx)\<close>

text \<open>
  \<open>QuizQuestion\<close> and \<open>QuizAnswerOption\<close> are declared in \<open>types.ts\<close>; their fields are those of the
  array literal below (\<open>qid\<close> is the field \<open>id\<close>, \<open>option_text\<close> the field \<open>text\<close>).
\<close>

record QuizAnswerOption =
  option_text :: jsstring
  isCorrect :: bool

datatype Difficulty = easy | medium | hard

record QuizQuestion =
  qid :: jsstring
  questionText :: jsstring
  options :: "QuizAnswerOption list"
  category :: jsstring
  difficulty :: Difficulty
  explanation :: jsstring

text \<open>The key of the seen-question record, the field \<open>femmoraSeenQuizQuestions\<close> of the storage.\<close>

definition SEEN_QUESTIONS_STORAGE_KEY :: jsstring where
  "SEEN_QUESTIONS_STORAGE_KEY = js ''femmoraSeenQuizQuestions''"

definition QUESTIONS_PER_BATCH :: nat where
  "QUESTIONS_PER_BATCH = 5"

text \<open>The array literal of lines 23-153, in its order.\<close>

definition allMockQuestions :: "QuizQuestion list" where
  "allMockQuestions =
     [\<lparr>qid = js ''gk1'',
        questionText = js ''What is the capital of India?'',
        options =
         [\<lparr>option_text = js ''Mumbai'', isCorrect = False\<rparr>,
          \<lparr>option_text = js ''New Delhi'', isCorrect = True\<rparr>,
          \<lparr>option_text = js ''Kolkata'', isCorrect = False\<rparr>,
          \<lparr>option_text = js ''Chennai'', isCorrect = False\<rparr>],
        category = js ''General Knowledge'', difficulty = easy,
        explanation = js ''New Delhi is the capital of India.''\<rparr>,
      \<lparr>qid = js ''gk2'',
        questionText = js ''Which is the longest river in India?'',
        options =
         [\<lparr>option_text = js ''Godavari'', isCorrect = False\<rparr>,
          \<lparr>option_text = js ''Ganges (Ganga)'', isCorrect = True\<rparr>,
          \<lparr>option_text = js ''Yamuna'', isCorrect = False\<rparr>,
          \<lparr>option_text = js ''Brahmaputra'', isCorrect = False\<rparr>],
        category = js ''General Knowledge'', difficulty = medium,
        explanation = js ''The Ganges (Ganga) is the longest river in India.''\<rparr>,
      \<lparr>qid = js ''gk3'',
        questionText = js ''Who is known as the \"Father of the Nation\" in India?'',
        options =
         [\<lparr>option_text = js ''Jawaharlal Nehru'', isCorrect = False\<rparr>,
          \<lparr>option_text = js ''Sardar Patel'', isCorrect = False\<rparr>,
          \<lparr>option_text = js ''Mahatma Gandhi'', isCorrect = True\<rparr>,
          \<lparr>option_text = js ''B.R. Ambedkar'', isCorrect = False\<rparr>],
        category = js ''General Knowledge'', difficulty = easy,
        explanation = js ''Mahatma Gandhi is known as the Father of the Nation in India.''\<rparr>,
      \<lparr>qid = js ''gk4'',
        questionText = js ''How many states are there in India (as of 2023)?'',
        options =
         [\<lparr>option_text = js ''28'', isCorrect = True\<rparr>,
          \<lparr>option_text = js ''29'', isCorrect = False\<rparr>,
          \<lparr>option_text = js ''30'', isCorrect = False\<rparr>,
          \<lparr>option_text = js ''27'', isCorrect = False\<rparr>],
        category = js ''General Knowledge'', difficulty = medium,
        explanation = js ''India has 28 states and 8 Union Territories.''\<rparr>,
      \<lparr>qid = js ''gk5'',
        questionText = js ''What is the national animal of India?'',
        options =
         [\<lparr>option_text = js ''Lion'', isCorrect = False\<rparr>,
          \<lparr>option_text = js ''Tiger'', isCorrect = True\<rparr>,
          \<lparr>option_text = js ''Elephant'', isCorrect = False\<rparr>,
          \<lparr>option_text = js ''Leopard'', isCorrect = False\<rparr>],
        category = js ''General Knowledge'', difficulty = easy,
        explanation = js ''The Royal Bengal Tiger is the national animal of India.''\<rparr>,
      \<lparr>qid = js ''logic1'',
        questionText = js ''Which number comes next in the series: 2, 4, 6, 8, __?'',
        options =
         [\<lparr>option_text = js ''9'', isCorrect = False\<rparr>,
          \<lparr>option_text = js ''10'', isCorrect = True\<rparr>,
          \<lparr>option_text = js ''12'', isCorrect = False\<rparr>,
          \<lparr>option_text = js ''7'', isCorrect = False\<rparr>],
        category = js ''Logic'', difficulty = easy,
        explanation = js ''The series increases by 2 each time. So, 8 + 2 = 10.''\<rparr>,
      \<lparr>qid = js ''logic2'',
        questionText = js ''If all Bloops are Razzies and all Razzies are Lazzies, are all Bloops definitely Lazzies?'',
        options =
         [\<lparr>option_text = js ''Yes'', isCorrect = True\<rparr>,
          \<lparr>option_text = js ''No'', isCorrect = False\<rparr>,
          \<lparr>option_text = js ''Maybe'', isCorrect = False\<rparr>,
          \<lparr>option_text = js ''Not enough information'', isCorrect = False\<rparr>],
        category = js ''Logic'', difficulty = medium,
        explanation = js ''This is a transitive property. If A=B and B=C, then A=C.''\<rparr>,
      \<lparr>qid = js ''logic3'',
        questionText = js ''A B C D E. Which letter is two to the right of the letter immediately to the left of D?'',
        options =
         [\<lparr>option_text = js ''C'', isCorrect = False\<rparr>,
          \<lparr>option_text = js ''D'', isCorrect = False\<rparr>,
          \<lparr>option_text = js ''E'', isCorrect = True\<rparr>,
          \<lparr>option_text = js ''B'', isCorrect = False\<rparr>],
        category = js ''Logic'', difficulty = medium,
        explanation = js ''Letter to the left of D is C. Two letters to the right of C is E.''\<rparr>,
      \<lparr>qid = js ''logic4'',
        questionText = js ''A mother is twice as old as her daughter. If the mother is 40, how old is the daughter?'',
        options =
         [\<lparr>option_text = js ''10'', isCorrect = False\<rparr>,
          \<lparr>option_text = js ''20'', isCorrect = True\<rparr>,
          \<lparr>option_text = js ''30'', isCorrect = False\<rparr>,
          \<lparr>option_text = js ''15'', isCorrect = False\<rparr>],
        category = js ''Logic'', difficulty = easy,
        explanation = js ''If the mother is twice as old, the daughter is half her age. 40 / 2 = 20.''\<rparr>,
      \<lparr>qid = js ''logic5'',
        questionText = js ''Which shape usually has the most sides: Triangle, Square, Pentagon, Hexagon?'',
        options =
         [\<lparr>option_text = js ''Triangle (3)'', isCorrect = False\<rparr>,
          \<lparr>option_text = js ''Square (4)'', isCorrect = False\<rparr>,
          \<lparr>option_text = js ''Pentagon (5)'', isCorrect = False\<rparr>,
          \<lparr>option_text = js ''Hexagon (6)'', isCorrect = True\<rparr>],
        category = js ''Logic'', difficulty = easy,
        explanation = js ''A hexagon has 6 sides, which is more than a triangle (3), square (4), or pentagon (5).''\<rparr>,
      \<lparr>qid = js ''math1'',
        questionText = js ''What is 5 + 7?'',
        options =
         [\<lparr>option_text = js ''10'', isCorrect = False\<rparr>,
          \<lparr>option_text = js ''12'', isCorrect = True\<rparr>,
          \<lparr>option_text = js ''11'', isCorrect = False\<rparr>,
          \<lparr>option_text = js ''13'', isCorrect = False\<rparr>],
        category = js ''Math'', difficulty = easy,
        explanation = js ''5 + 7 equals 12.''\<rparr>,
      \<lparr>qid = js ''math2'',
        questionText = js ''How many sides does a triangle have?'',
        options =
         [\<lparr>option_text = js ''Three'', isCorrect = True\<rparr>,
          \<lparr>option_text = js ''Four'', isCorrect = False\<rparr>,
          \<lparr>option_text = js ''Five'', isCorrect = False\<rparr>,
          \<lparr>option_text = js ''Six'', isCorrect = False\<rparr>],
        category = js ''Math'', difficulty = easy,
        explanation = js ''A triangle is a polygon with three edges and three vertices.''\<rparr>,
      \<lparr>qid = js ''math3'',
        questionText = js ''What is 2 + 2 * 2?'',
        options =
         [\<lparr>option_text = js ''8'', isCorrect = False\<rparr>,
          \<lparr>option_text = js ''6'', isCorrect = True\<rparr>,
          \<lparr>option_text = js ''4'', isCorrect = False\<rparr>,
          \<lparr>option_text = js ''10'', isCorrect = False\<rparr>],
        category = js ''Math'', difficulty = medium,
        explanation = js ''Order of operations (multiplication first): 2 * 2 = 4, then 2 + 4 = 6.''\<rparr>,
      \<lparr>qid = js ''math4'',
        questionText = js ''If you have 3 apples and you give away 1, how many do you have left?'',
        options =
         [\<lparr>option_text = js ''1'', isCorrect = False\<rparr>,
          \<lparr>option_text = js ''2'', isCorrect = True\<rparr>,
          \<lparr>option_text = js ''3'', isCorrect = False\<rparr>,
          \<lparr>option_text = js ''0'', isCorrect = False\<rparr>],
        category = js ''Math'', difficulty = easy,
        explanation = js ''3 - 1 = 2.''\<rparr>,
      \<lparr>qid = js ''math5'',
        questionText = js ''What is 10 divided by 2?'',
        options =
         [\<lparr>option_text = js ''2'', isCorrect = False\<rparr>,
          \<lparr>option_text = js ''5'', isCorrect = True\<rparr>,
          \<lparr>option_text = js ''8'', isCorrect = False\<rparr>,
          \<lparr>option_text = js ''4'', isCorrect = False\<rparr>],
        category = js ''Math'', difficulty = easy,
        explanation = js ''10 / 2 = 5.''\<rparr>,
      \<lparr>qid = js ''sci1'',
        questionText = js ''What do plants need to grow, apart from water and soil?'',
        options =
         [\<lparr>option_text = js ''Moonlight'', isCorrect = False\<rparr>,
          \<lparr>option_text = js ''Sunlight'', isCorrect = True\<rparr>,
          \<lparr>option_text = js ''Electricity'', isCorrect = False\<rparr>,
          \<lparr>option_text = js ''Wind'', isCorrect = False\<rparr>],
        category = js ''Basic Science'', difficulty = easy,
        explanation = js ''Plants use sunlight for photosynthesis to make their food.''\<rparr>,
      \<lparr>qid = js ''sci2'',
        questionText = js ''What is H2O commonly known as?'',
        options =
         [\<lparr>option_text = js ''Salt'', isCorrect = False\<rparr>,
          \<lparr>option_text = js ''Sugar'', isCorrect = False\<rparr>,
          \<lparr>option_text = js ''Water'', isCorrect = True\<rparr>,
          \<lparr>option_text = js ''Air'', isCorrect = False\<rparr>],
        category = js ''Basic Science'', difficulty = easy,
        explanation = js ''H2O is the chemical formula for water.''\<rparr>,
      \<lparr>qid = js ''sci3'',
        questionText = js ''Which planet is known as the Red Planet?'',
        options =
         [\<lparr>option_text = js ''Jupiter'', isCorrect = False\<rparr>,
          \<lparr>option_text = js ''Mars'', isCorrect = True\<rparr>,
          \<lparr>option_text = js ''Venus'', isCorrect = False\<rparr>,
          \<lparr>option_text = js ''Saturn'', isCorrect = False\<rparr>],
        category = js ''Basic Science'', difficulty = medium,
        explanation = js ''Mars is called the Red Planet due to its reddish appearance from iron oxide on its surface.''\<rparr>,
      \<lparr>qid = js ''sci4'',
        questionText = js ''What pulls objects towards the Earth?'',
        options =
         [\<lparr>option_text = js ''Magnetism'', isCorrect = False\<rparr>,
          \<lparr>option_text = js ''Gravity'', isCorrect = True\<rparr>,
          \<lparr>option_text = js ''Friction'', isCorrect = False\<rparr>,
          \<lparr>option_text = js ''Wind'', isCorrect = False\<rparr>],
        category = js ''Basic Science'', difficulty = easy,
        explanation = js ''Gravity is the force that attracts objects with mass towards each other, like Earth pulling objects down.''\<rparr>,
      \<lparr>qid = js ''sci5'',
        questionText = js ''How many colors are in a rainbow typically?'',
        options =
         [\<lparr>option_text = js ''5'', isCorrect = False\<rparr>,
          \<lparr>option_text = js ''7'', isCorrect = True\<rparr>,
          \<lparr>option_text = js ''9'', isCorrect = False\<rparr>,
          \<lparr>option_text = js ''3'', isCorrect = False\<rparr>],
        category = js ''Basic Science'', difficulty = easy,
        explanation = js ''A rainbow has 7 colors: Red, Orange, Yellow, Green, Blue, Indigo, and Violet (ROYGBIV).''\<rparr>]"

subsection \<open>Array.prototype.sort with the random comparator\<close>

text \<open>
  Line 188 sorts with the comparator \<open>() => 0.5 - Math.random()\<close>, which ignores the elements it
  is given. What the engine's sort does is then fixed by the array and by the signs of the
  successive comparator results: a decision tree, one \<open>Compare\<close> node per call of the
  comparator (left subtree when the result is negative), whose leaves say how the array is
  rearranged. The engine is not part of the repository: it is a parameter. What is taken of
  every engine is that its sort moves the elements it was given, dropping and repeating none,
  and works in place: a rearrangement is a sequence of exchanges of two positions.
\<close>

datatype 'a dtree = Done 'a | Compare "'a dtree" "'a dtree"

type_synonym exchanges = "(nat \<times> nat) list"

type_synonym 'a engine = "'a list \<Rightarrow> exchanges dtree"

text \<open>
  The random source: element \<open>k\<close> of the stream tells whether the \<open>k\<close>-th comparator result
  \<open>0.5 - Math.random()\<close> is negative.
\<close>

primrec run :: "'a dtree \<Rightarrow> bool stream \<Rightarrow> 'a" where
  "run (Done x) rnd = x"
| "run (Compare neg pos) rnd = (if shd rnd then run neg (stl rnd) else run pos (stl rnd))"

definition exchange :: "nat \<times> nat \<Rightarrow> 'a list \<Rightarrow> 'a list" where
  "exchange p xs =
     (case p of (i, j) \<Rightarrow>
        if i < length xs \<and> j < length xs then xs[i := xs ! j, j := xs ! i] else xs)"

definition rearrange :: "exchanges \<Rightarrow> 'a list \<Rightarrow> 'a list" where
  "rearrange es xs = fold exchange es xs"

definition Array_sort :: "'a engine \<Rightarrow> bool stream \<Rightarrow> 'a list \<Rightarrow> 'a list" where
  "Array_sort engine rnd xs = rearrange (run (engine xs) rnd) xs"

text \<open>
  With a uniform \<open>Math.random()\<close> each comparator result is negative with probability one
  half, independently of the others. \<open>prob t P\<close> is then the probability that the run of the
  decision tree \<open>t\<close> ends in a leaf that satisfies \<open>P\<close>, and \<open>shuffle_probability engine xs ys\<close>
  the probability that sorting \<open>xs\<close> leaves the array as \<open>ys\<close>.
\<close>

primrec depth :: "'a dtree \<Rightarrow> nat" where
  "depth (Done x) = 0"
| "depth (Compare neg pos) = Suc (max (depth neg) (depth pos))"

primrec prob :: "'a dtree \<Rightarrow> ('a \<Rightarrow> bool) \<Rightarrow> rat" where
  "prob (Done x) P = (if P x then 1 else 0)"
| "prob (Compare neg pos) P = (prob neg P + prob pos P) / 2"

definition shuffle_probability :: "'a engine \<Rightarrow> 'a list \<Rightarrow> 'a list \<Rightarrow> rat" where
  "shuffle_probability engine xs ys = prob (engine xs) (\<lambda>es. rearrange es xs = ys)"

subsection \<open>The screen's state\<close>

datatype quiz_state = idle | active | finished

datatype answer_status = correct | incorrect | unanswered

text \<open>
  \<open>pool\<close> is the module-level array \<open>allMockQuestions\<close>: \<open>getUnseenQuestions\<close> can return that very
  array and \<open>startNewQuiz\<close> sorts what it gets in place, so its order is part of the state.
  \<open>ls\<close> is the durable storage; the other fields are the \<open>useState\<close> cells of lines 157-162.
\<close>

record quiz =
  pool :: "QuizQuestion list"
  ls :: localStorage
  quizState :: quiz_state
  currentQuestions :: "QuizQuestion list"
  currentQuestionIndex :: nat
  score :: nat
  selectedAnswer :: "QuizAnswerOption option"
  answerStatus :: answer_status

definition BrainQuizzesScreen_initial :: "localStorage \<Rightarrow> quiz" where
  "BrainQuizzesScreen_initial s =
     \<lparr>pool = allMockQuestions, ls = s, quizState = idle, currentQuestions = [],
      currentQuestionIndex = 0, score = 0, selectedAnswer = None, answerStatus = unanswered\<rparr>"

subsection \<open>Reading the seen-question record\<close>

text \<open>\<open>String.prototype.includes\<close>: the argument occurs as a substring.\<close>

fun starts_with :: "jsstring \<Rightarrow> jsstring \<Rightarrow> bool" where
  "starts_with s [] = True"
| "starts_with [] (c # cs) = False"
| "starts_with (d # ds) (c # cs) = (d = c \<and> starts_with ds cs)"

fun String_includes :: "jsstring \<Rightarrow> jsstring \<Rightarrow> bool" where
  "String_includes [] needle = (needle = [])"
| "String_includes (d # ds) needle = (starts_with (d # ds) needle \<or> String_includes ds needle)"

text \<open>
  \<open>seenIds.includes(id)\<close> on whatever value \<open>seenIds\<close> holds: \<open>Array.prototype.includes\<close> on an
  array (an element equal to the string), \<open>String.prototype.includes\<close> on a string, and a
  \<open>TypeError\<close> on every other JSON value (\<open>null\<close> has no properties; a number, a boolean or an
  object of JSON has no callable \<open>includes\<close>).
\<close>

fun JS_includes :: "json \<Rightarrow> jsstring \<Rightarrow> js_error + bool" where
  "JS_includes (JArr vs) s = Inr (JStr s \<in> set vs)"
| "JS_includes (JStr t) s = Inr (String_includes t s)"
| "JS_includes _ s = Inl TypeError"

text \<open>
  \<open>has_includes v\<close>: \<open>v\<close> is an array or a string, the values on which the call succeeds;
  \<open>is_seen v i\<close>: the call succeeds and returns \<open>true\<close>.
\<close>

fun has_includes :: "json \<Rightarrow> bool" where
  "has_includes (JArr vs) = True"
| "has_includes (JStr t) = True"
| "has_includes _ = False"

definition is_seen :: "json \<Rightarrow> jsstring \<Rightarrow> bool" where
  "is_seen seenIds i = (JS_includes seenIds i = Inr True)"

text \<open>\<open>allMockQuestions.filter(q => !seenIds.includes(q.id))\<close>, line 176: the callback runs on
  every element in order and its exception ends the filter.\<close>

fun filter_unseen :: "json \<Rightarrow> QuizQuestion list \<Rightarrow> js_error + QuizQuestion list" where
  "filter_unseen seenIds [] = Inr []"
| "filter_unseen seenIds (q # qs) =
     (case JS_includes seenIds (qid q) of
        Inl e \<Rightarrow> Inl e
      | Inr seen \<Rightarrow>
          (case filter_unseen seenIds qs of
             Inl e \<Rightarrow> Inl e
           | Inr r \<Rightarrow> Inr (if seen then r else q # r)))"

text \<open>Lines 165-174: the guarded read. A parse failure is caught and leaves the empty array.\<close>

definition read_seenIds :: "localStorage \<Rightarrow> json" where
  "read_seenIds s =
     (case femmoraSeenQuizQuestions s of
        None \<Rightarrow> JArr []
      | Some stored \<Rightarrow>
          if stored = [] then JArr []
          else (case JSON_parse stored of None \<Rightarrow> JArr [] | Some v \<Rightarrow> v))"

text \<open>
  What \<open>getUnseenQuestions\<close> returns is either the module-level array itself or the new array
  that \<open>filter\<close> built.
\<close>

datatype unseen_array = TheMockArray | NewArray "QuizQuestion list"

definition getUnseenQuestions :: "quiz \<Rightarrow> js_error + (unseen_array \<times> quiz)" where
  "getUnseenQuestions q =
     (case filter_unseen (read_seenIds (ls q)) (pool q) of
        Inl e \<Rightarrow> Inl e
      | Inr unseen \<Rightarrow>
          if length unseen < QUESTIONS_PER_BATCH then
            Inr (TheMockArray, q\<lparr>ls := (ls q)\<lparr>femmoraSeenQuizQuestions := None\<rparr>\<rparr>)
          else Inr (NewArray unseen, q))"

subsection \<open>The handlers\<close>

definition startNewQuiz :: "QuizQuestion engine \<Rightarrow> bool stream \<Rightarrow> quiz \<Rightarrow> js_error + quiz" where
  "startNewQuiz engine rnd q =
     (case getUnseenQuestions q of
        Inl e \<Rightarrow> Inl e
      | Inr (unseenQuestions, q1) \<Rightarrow>
          (let (shuffled, q2) =
                 (case unseenQuestions of
                    TheMockArray \<Rightarrow>
                      (Array_sort engine rnd (pool q1),
                       q1\<lparr>pool := Array_sort engine rnd (pool q1)\<rparr>)
                  | NewArray a \<Rightarrow> (Array_sort engine rnd a, q1));
               newBatch = take QUESTIONS_PER_BATCH shuffled
           in Inr (q2\<lparr>currentQuestions := newBatch, currentQuestionIndex := 0, score := 0,
                      selectedAnswer := None, answerStatus := unanswered,
                      quizState := active\<rparr>)))"

definition handleAnswerSelect :: "QuizAnswerOption \<Rightarrow> quiz \<Rightarrow> quiz" where
  "handleAnswerSelect opt q =
     (if answerStatus q = unanswered then q\<lparr>selectedAnswer := Some opt\<rparr> else q)"

definition handleSubmitAnswer :: "quiz \<Rightarrow> quiz" where
  "handleSubmitAnswer q =
     (case selectedAnswer q of
        None \<Rightarrow> q
      | Some a \<Rightarrow>
          if isCorrect a then q\<lparr>score := score q + 1, answerStatus := correct\<rparr>
          else q\<lparr>answerStatus := incorrect\<rparr>)"

text \<open>
  \<open>handleNextQuestion\<close>, lines 216-233. The read of line 219 is not guarded; \<open>push\<close> exists on
  arrays only; reading \<open>.id\<close> of an element that is not there is a \<open>TypeError\<close>.
\<close>

definition handleNextQuestion :: "quiz \<Rightarrow> js_error + quiz" where
  "handleNextQuestion q =
     (case (case femmoraSeenQuizQuestions (ls q) of
              None \<Rightarrow> Inr (JArr [])
            | Some seenIdsStr \<Rightarrow>
                if seenIdsStr = [] then Inr (JArr [])
                else (case JSON_parse seenIdsStr of
                        None \<Rightarrow> Inl SyntaxError
                      | Some v \<Rightarrow> Inr v)) of
        Inl e \<Rightarrow> Inl e
      | Inr seenIds \<Rightarrow>
          if length (currentQuestions q) \<le> currentQuestionIndex q then Inl TypeError
          else
            (let currentQuestionId = qid (currentQuestions q ! currentQuestionIndex q)
             in case JS_includes seenIds currentQuestionId of
                  Inl e \<Rightarrow> Inl e
                | Inr seen \<Rightarrow>
                    (case (if seen then Inr q
                           else (case seenIds of
                                   JArr vs \<Rightarrow>
                                     Inr (q\<lparr>ls := (ls q)\<lparr>femmoraSeenQuizQuestions :=
                                            Some (JSON_stringify
                                                    (JArr (vs @ [JStr currentQuestionId])))\<rparr>\<rparr>)
                                 | _ \<Rightarrow> Inl TypeError)) of
                       Inl e \<Rightarrow> Inl e
                     | Inr q1 \<Rightarrow>
                         if currentQuestionIndex q + 1 < length (currentQuestions q) then
                           Inr (q1\<lparr>currentQuestionIndex := currentQuestionIndex q + 1,
                                    selectedAnswer := None, answerStatus := unanswered\<rparr>)
                         else Inr (q1\<lparr>quizState := finished\<rparr>))))"

text \<open>
  What the screen offers (lines 235-317). The Submit button is rendered only while a quiz is
  active and the current question is unanswered, and it is disabled while nothing is selected;
  the Next button takes its place once the answer is submitted.
\<close>

definition submit_offered :: "quiz \<Rightarrow> bool" where
  "submit_offered q =
     (quizState q = active \<and> answerStatus q = unanswered \<and> selectedAnswer q \<noteq> None)"

definition next_offered :: "quiz \<Rightarrow> bool" where
  "next_offered q = (quizState q = active \<and> answerStatus q \<noteq> unanswered)"

text \<open>A click on the Submit button: the handler runs when the button is there and enabled.\<close>

definition click_submit :: "quiz \<Rightarrow> quiz" where
  "click_submit q = (if submit_offered q then handleSubmitAnswer q else q)"

section \<open>String literals\<close>

text \<open>Two literals are the same JavaScript string exactly when they are the same text.\<close>

lemma unat_of_char: "unat (of_char c :: 16 word) = of_char c"
proof -
  have "(of_char c :: nat) mod 256 = of_char c" by simp
  then have lt: "(of_char c :: nat) < 256"
    by (metis mod_less_divisor zero_less_numeral)
  have "unat (of_char c :: 16 word) = unat (of_nat (of_char c) :: 16 word)"
    by (simp only: of_nat_of_char)
  also have "\<dots> = (of_char c :: nat) mod 65536"
    by (simp add: unat_of_nat del: of_nat_of_char)
  also have "\<dots> = of_char c"
  proof (rule mod_less)
    from lt show "(of_char c :: nat) < 65536" by linarith
  qed
  finally show ?thesis .
qed

lemma of_char_word_eq_iff: "(of_char c :: 16 word) = of_char d \<longleftrightarrow> c = d"
proof
  assume "(of_char c :: 16 word) = of_char d"
  then have "unat (of_char c :: 16 word) = unat (of_char d :: 16 word)" by simp
  then show "c = d" by (simp add: unat_of_char)
qed simp

lemma js_eq_iff: "js s = js t \<longleftrightarrow> s = t"
  unfolding js_def by (rule inj_map_eq_map) (simp add: inj_on_def of_char_word_eq_iff)

lemma js_Nil_iff: "js s = [] \<longleftrightarrow> s = []"
  by (simp add: js_def)

lemma Nil_js_iff: "[] = js s \<longleftrightarrow> s = []"
  by (auto simp: js_def)

section \<open>Facts about the question pool\<close>

lemma allMockQuestions_ids:
  "map qid allMockQuestions =
     [js ''gk1'', js ''gk2'', js ''gk3'', js ''gk4'', js ''gk5'',
      js ''logic1'', js ''logic2'', js ''logic3'', js ''logic4'', js ''logic5'',
      js ''math1'', js ''math2'', js ''math3'', js ''math4'', js ''math5'',
      js ''sci1'', js ''sci2'', js ''sci3'', js ''sci4'', js ''sci5'']"
  by (simp add: allMockQuestions_def)

lemma length_allMockQuestions: "length allMockQuestions = 20"
  using arg_cong [OF allMockQuestions_ids, of length] by simp

lemma distinct_allMockQuestions_ids: "distinct (map qid allMockQuestions)"
  unfolding allMockQuestions_ids by (simp add: js_eq_iff)

lemma allMockQuestions_one_correct:
  "list_all (\<lambda>q. length (filter isCorrect (options q)) = 1) allMockQuestions"
  by (simp add: allMockQuestions_def)

section \<open>JSON.parse reads back what JSON.stringify wrote\<close>

lemma unat_hexdigit: "n < 16 \<Longrightarrow> unat (hexdigit n) = (if n < 10 then 0x30 + n else 0x57 + n)"
  by (simp add: hexdigit_def unat_of_nat del: of_nat_add of_nat_numeral)

lemma hexval_hexdigit: "n < 16 \<Longrightarrow> hexval (hexdigit n) = Some n"
  by (simp add: hexval_def word_le_nat_alt unat_hexdigit)

lemma hex_digits_value:
  fixes m :: nat
  shows "((m div 4096 * 16 + m div 256 mod 16) * 16 + m div 16 mod 16) * 16 + m mod 16 = m"
proof -
  have a: "m div 4096 = m div 256 div 16" and b: "m div 256 = m div 16 div 16"
    by (simp_all add: div_mult2_eq [symmetric])
  have "m div 4096 * 16 + m div 256 mod 16 = m div 256"
    unfolding a by (rule div_mult_mod_eq)
  moreover have "m div 256 * 16 + m div 16 mod 16 = m div 16"
    unfolding b by (rule div_mult_mod_eq)
  moreover have "m div 16 * 16 + m mod 16 = m"
    by (rule div_mult_mod_eq)
  ultimately show ?thesis by simp
qed

lemma hex4_unicode_escape:
  "hex4 (hexdigit (unat c div 4096)) (hexdigit (unat c div 256 mod 16))
        (hexdigit (unat c div 16 mod 16)) (hexdigit (unat c mod 16)) = Some c"
proof -
  have lt: "unat c < 65536" using unsigned_less [of c] by simp
  then have d: "unat c div 4096 < 16" by simp
  have v: "hexval (hexdigit (unat c div 4096)) = Some (unat c div 4096)"
      "hexval (hexdigit (unat c div 256 mod 16)) = Some (unat c div 256 mod 16)"
      "hexval (hexdigit (unat c div 16 mod 16)) = Some (unat c div 16 mod 16)"
      "hexval (hexdigit (unat c mod 16)) = Some (unat c mod 16)"
    using d by (simp_all add: hexval_hexdigit)
  have inv: "(of_nat (unat c) :: 16 word) = c" by simp
  show ?thesis
    by (simp only: hex4_def v prod.case option.case hex_digits_value inv)
qed

text \<open>One quoted code unit is read back as that code unit.\<close>

lemma lex_string_quote_unit:
  "lex_string (quote_unit c @ r) =
     (case lex_string r of None \<Rightarrow> None | Some (s, rest) \<Rightarrow> Some (c # s, rest))"
proof -
  let ?short = "c = 0x08 \<or> c = 0x09 \<or> c = 0x0A \<or> c = 0x0C \<or> c = 0x0D \<or> c = 0x22 \<or> c = 0x5C"
  let ?esc = "c < 0x20 \<or> is_high_surrogate c \<or> is_low_surrogate c"
  consider (short) "?short" | (unicode) "\<not> ?short" "?esc" | (verbatim) "\<not> ?short" "\<not> ?esc"
    by blast
  then show ?thesis
  proof cases
    case short
    then show ?thesis
      by (elim disjE) (auto simp: quote_unit_def unescape_def)
  next
    case unicode
    then have "quote_unit c = unicode_escape c"
      by (simp add: quote_unit_def)
    then show ?thesis
      by (simp add: unicode_escape_def hex4_unicode_escape)
  next
    case verbatim
    then have "quote_unit c = [c]"
      by (simp add: quote_unit_def)
    with verbatim show ?thesis
      by simp
  qed
qed

lemma lex_string_quote_body:
  "lex_string (quote_body s @ 0x22 # rest) = Some (s, rest)"
proof (induction s rule: quote_body.induct)
  case 1
  then show ?case by simp
next
  case (2 c)
  then show ?case by (simp add: lex_string_quote_unit)
next
  case (3 c d cs)
  show ?case
  proof (cases "is_high_surrogate c \<and> is_low_surrogate d")
    case True
    then have "c \<noteq> 0x22" "c \<noteq> 0x5C" "\<not> c < 0x20" "d \<noteq> 0x22" "d \<noteq> 0x5C" "\<not> d < 0x20"
      by (auto simp: is_high_surrogate_def is_low_surrogate_def word_le_nat_alt word_less_nat_alt)
    with True 3 show ?thesis by simp
  next
    case False
    then have "quote_body (c # d # cs) = quote_unit c @ quote_body (d # cs)"
      by auto
    with False 3 show ?thesis
      by (simp only: append_assoc lex_string_quote_unit) simp
  qed
qed

lemma lex_QuoteJSONString:
  "lex (QuoteJSONString s @ rest) = map_option (Cons (TStr s)) (lex rest)"
  by (simp add: QuoteJSONString_def is_ws_def lex_string_quote_body)

lemma User_names_no_array_index:
  "array_index (js ''id'') = None" "array_index (js ''name'') = None"
  "array_index (js ''email'') = None"
  by (simp_all add: array_index_def js_def is_digit_def)

lemma JSON_parse_stringify_User:
  "JSON_parse (JSON_stringify (User_json u)) = Some (User_json u)"
  by (simp add: JSON_parse_def User_json_def is_ws_def lex_QuoteJSONString
        lex_QuoteJSONString [where rest = "[]", simplified]
        comes_before_def User_names_no_array_index js_eq_iff)

section \<open>The sort rearranges, whatever the engine\<close>

lemma mset_exchange: "mset (exchange p xs) = mset xs"
  by (cases p) (simp add: exchange_def mset_swap)

lemma mset_rearrange: "mset (rearrange es xs) = mset xs"
  unfolding rearrange_def by (induction es arbitrary: xs) (simp_all add: mset_exchange)

lemma mset_Array_sort: "mset (Array_sort engine rnd xs) = mset xs"
  by (simp add: Array_sort_def mset_rearrange)


lemma set_Array_sort: "set (Array_sort engine rnd xs) = set xs"
  using mset_Array_sort [of engine rnd xs] by (metis set_mset_mset)


section \<open>The probability of an ordering\<close>

text \<open>A probability read off a decision tree is a multiple of a power of one half.\<close>

lemma prob_dyadic: "\<exists>k::nat. prob t P * 2 ^ depth t = of_nat k"
proof (induction t)
  case (Done x)
  show ?case by (cases "P x") (auto intro: exI [of _ 1] exI [of _ 0])
next
  case (Compare l r)
  from Compare obtain a b :: nat
    where a: "prob l P * 2 ^ depth l = of_nat a" and b: "prob r P * 2 ^ depth r = of_nat b"
    by blast
  let ?m = "max (depth l) (depth r)"
  have l: "prob l P * 2 ^ ?m = of_nat (a * 2 ^ (?m - depth l))"
  proof -
    have "prob l P * 2 ^ ?m = prob l P * 2 ^ depth l * 2 ^ (?m - depth l)"
      by (simp add: power_add [symmetric])
    then show ?thesis by (simp add: a)
  qed
  have r: "prob r P * 2 ^ ?m = of_nat (b * 2 ^ (?m - depth r))"
  proof -
    have "prob r P * 2 ^ ?m = prob r P * 2 ^ depth r * 2 ^ (?m - depth r)"
      by (simp add: power_add [symmetric])
    then show ?thesis by (simp add: b)
  qed
  have "prob (Compare l r) P * 2 ^ depth (Compare l r) = prob l P * 2 ^ ?m + prob r P * 2 ^ ?m"
    by (simp add: field_simps)
  also have "\<dots> = of_nat (a * 2 ^ (?m - depth l) + b * 2 ^ (?m - depth r))"
    by (simp only: l r of_nat_add)
  finally show ?case by blast
qed

lemma pow2_mod3: "(2::nat) ^ d mod 3 = 1 \<or> (2::nat) ^ d mod 3 = 2"
proof (induction d)
  case 0
  show ?case by simp
next
  case (Suc d)
  have "(2::nat) ^ Suc d mod 3 = (2 * (2 ^ d mod 3)) mod 3"
    by (simp add: mod_mult_right_eq)
  with Suc show ?case by auto
qed

lemma prob_not_uniform:
  assumes "3 \<le> n"
  shows "prob t P \<noteq> 1 / of_nat (fact n)"
proof
  assume u: "prob t P = 1 / of_nat (fact n)"
  obtain k :: nat where k: "prob t P * 2 ^ depth t = of_nat k"
    using prob_dyadic by blast
  have "(of_nat (k * fact n) :: rat) = of_nat (2 ^ depth t)"
    using k u by (simp add: field_simps)
  then have eq: "k * fact n = 2 ^ depth t"
    by (simp only: of_nat_eq_iff)
  have "(3::nat) dvd fact n"
    using assms by (simp add: dvd_fact)
  then have "(3::nat) dvd 2 ^ depth t"
    using eq by (metis dvd_mult)
  then have "(2::nat) ^ depth t mod 3 = 0"
    by (simp add: dvd_eq_mod_eq_0)
  with pow2_mod3 [of "depth t"] show False
    by simp
qed

text \<open>
  \<open>prob\<close> counts runs: of the \<open>2 ^ d\<close> equally likely sequences of \<open>d\<close> comparator signs
  (\<open>d\<close> at least the depth of the tree), it is the share of those whose run ends in \<open>P\<close>.
\<close>

lemma card_bool_lists: "card {cs :: bool list. length cs = d} = 2 ^ d"
  using card_lists_length_eq [of "UNIV :: bool set" d] by simp

lemma finite_bool_lists: "finite {cs :: bool list. length cs = d \<and> Q cs}"
  using finite_lists_length_eq [of "UNIV :: bool set" d] by simp

lemma runs_Compare:
  "{cs. length cs = Suc d \<and> P (run (Compare l r) (cs @- rnd))} =
     Cons True ` {cs. length cs = d \<and> P (run l (cs @- rnd))}
     \<union> Cons False ` {cs. length cs = d \<and> P (run r (cs @- rnd))}"
  (is "?S = ?A \<union> ?B")
proof
  show "?S \<subseteq> ?A \<union> ?B"
  proof
    fix cs assume m: "cs \<in> ?S"
    then obtain c cs' where cs: "cs = c # cs'" and len: "length cs' = d"
      by (cases cs) auto
    show "cs \<in> ?A \<union> ?B"
    proof (cases c)
      case True
      with m cs len have "cs' \<in> {cs. length cs = d \<and> P (run l (cs @- rnd))}" by simp
      with True cs show ?thesis by blast
    next
      case False
      with m cs len have "cs' \<in> {cs. length cs = d \<and> P (run r (cs @- rnd))}" by simp
      with False cs show ?thesis by blast
    qed
  qed
  show "?A \<union> ?B \<subseteq> ?S"
    by auto
qed

lemma prob_counts_runs:
  "depth t \<le> d \<Longrightarrow>
   prob t P = of_nat (card {cs. length cs = d \<and> P (run t (cs @- rnd))}) / 2 ^ d"
proof (induction t arbitrary: d rnd)
  case (Done x)
  show ?case by (cases "P x") (simp_all add: card_bool_lists)
next
  case (Compare l r)
  then obtain d' where d: "d = Suc d'" "depth l \<le> d'" "depth r \<le> d'"
    by (cases d) auto
  let ?A = "{cs. length cs = d' \<and> P (run l (cs @- rnd))}"
  let ?B = "{cs. length cs = d' \<and> P (run r (cs @- rnd))}"
  have "card (Cons True ` ?A \<union> Cons False ` ?B) = card (Cons True ` ?A) + card (Cons False ` ?B)"
    by (rule card_Un_disjoint) (auto simp: finite_bool_lists)
  also have "\<dots> = card ?A + card ?B"
    by (simp add: card_image)
  finally have c: "card {cs. length cs = d \<and> P (run (Compare l r) (cs @- rnd))} = card ?A + card ?B"
    by (simp only: d(1) runs_Compare)
  have "prob (Compare l r) P = (of_nat (card ?A) / 2 ^ d' + of_nat (card ?B) / 2 ^ d') / 2"
    using Compare.IH(1) [OF d(2), of rnd] Compare.IH(2) [OF d(3), of rnd] by simp
  also have "\<dots> = of_nat (card ?A + card ?B) / 2 ^ d"
    by (simp add: d(1) field_simps)
  finally show ?case by (simp only: c)
qed

lemma shuffle_probability_counts_runs:
  "depth (engine xs) \<le> d \<Longrightarrow>
   shuffle_probability engine xs ys =
     of_nat (card {cs. length cs = d \<and> Array_sort engine (cs @- rnd) xs = ys}) / 2 ^ d"
  unfolding shuffle_probability_def Array_sort_def
  by (rule prob_counts_runs)

section \<open>Drawing a batch\<close>

lemma JS_includes_defined:
  "has_includes seenIds \<Longrightarrow> JS_includes seenIds i = Inr (is_seen seenIds i)"
  by (cases seenIds) (simp_all add: is_seen_def)

lemma JS_includes_undefined:
  "\<not> has_includes seenIds \<Longrightarrow> JS_includes seenIds i = Inl TypeError"
  by (cases seenIds) simp_all

lemma filter_unseen_defined:
  "has_includes seenIds \<Longrightarrow>
   filter_unseen seenIds qs = Inr (filter (\<lambda>x. \<not> is_seen seenIds (qid x)) qs)"
  by (induction qs) (simp_all add: JS_includes_defined)

lemma filter_unseen_undefined:
  "\<not> has_includes seenIds \<Longrightarrow> qs \<noteq> [] \<Longrightarrow> filter_unseen seenIds qs = Inl TypeError"
  by (cases qs) (simp_all add: JS_includes_undefined)

text \<open>
  The guarded read yields an array when the record is absent, empty or not JSON, and otherwise
  the value the record denotes.
\<close>

lemma read_seenIds_absent:
  "femmoraSeenQuizQuestions s = None \<Longrightarrow> read_seenIds s = JArr []"
  by (simp add: read_seenIds_def)

lemma read_seenIds_malformed:
  "femmoraSeenQuizQuestions s = Some t \<Longrightarrow> JSON_parse t = None \<Longrightarrow> read_seenIds s = JArr []"
  by (simp add: read_seenIds_def)

lemma read_seenIds_parsed:
  "femmoraSeenQuizQuestions s = Some t \<Longrightarrow> t \<noteq> [] \<Longrightarrow> JSON_parse t = Some v \<Longrightarrow>
   read_seenIds s = v"
  by (simp add: read_seenIds_def)



lemma pool_startNewQuiz:
  assumes "mset (pool q) = mset allMockQuestions" and "startNewQuiz engine rnd q = Inr q'"
  shows "mset (pool q') = mset allMockQuestions"
  using assms
  by (auto simp: startNewQuiz_def getUnseenQuestions_def Let_def mset_Array_sort
           split: sum.splits if_splits unseen_array.splits prod.splits)

lemma pool_handleAnswerSelect: "pool (handleAnswerSelect opt q) = pool q"
  by (simp add: handleAnswerSelect_def)

lemma pool_handleSubmitAnswer: "pool (handleSubmitAnswer q) = pool q"
  by (simp add: handleSubmitAnswer_def split: option.splits)

lemma pool_handleNextQuestion: "handleNextQuestion q = Inr q' \<Longrightarrow> pool q' = pool q"
  by (auto simp: handleNextQuestion_def Let_def split: option.splits if_splits sum.splits json.splits)

text \<open>The outcome of \<open>startNewQuiz\<close> on each side of the test of line 178.\<close>

lemma startNewQuiz_reset:
  assumes "has_includes (read_seenIds (ls q))"
    and "length (filter (\<lambda>x. \<not> is_seen (read_seenIds (ls q)) (qid x)) (pool q)) < QUESTIONS_PER_BATCH"
  shows "startNewQuiz engine rnd q =
     Inr (q\<lparr>pool := Array_sort engine rnd (pool q),
            ls := (ls q)\<lparr>femmoraSeenQuizQuestions := None\<rparr>,
            currentQuestions := take QUESTIONS_PER_BATCH (Array_sort engine rnd (pool q)),
            currentQuestionIndex := 0, score := 0, selectedAnswer := None,
            answerStatus := unanswered, quizState := active\<rparr>)"
  using assms by (simp add: startNewQuiz_def getUnseenQuestions_def filter_unseen_defined)

lemma startNewQuiz_unseen:
  assumes "has_includes (read_seenIds (ls q))"
    and "\<not> length (filter (\<lambda>x. \<not> is_seen (read_seenIds (ls q)) (qid x)) (pool q)) < QUESTIONS_PER_BATCH"
  shows "startNewQuiz engine rnd q =
     Inr (q\<lparr>currentQuestions :=
              take QUESTIONS_PER_BATCH
                (Array_sort engine rnd
                   (filter (\<lambda>x. \<not> is_seen (read_seenIds (ls q)) (qid x)) (pool q))),
            currentQuestionIndex := 0, score := 0, selectedAnswer := None,
            answerStatus := unanswered, quizState := active\<rparr>)"
  using assms by (simp add: startNewQuiz_def getUnseenQuestions_def filter_unseen_defined)

lemma startNewQuiz_TypeError:
  assumes "\<not> has_includes (read_seenIds (ls q))" and "pool q \<noteq> []"
  shows "startNewQuiz engine rnd q = Inl TypeError"
  using assms by (simp add: startNewQuiz_def getUnseenQuestions_def filter_unseen_undefined)

text \<open>
  The records on which line 176 can call \<open>includes\<close>, and that these are the records on which
  \<open>startNewQuiz\<close> completes.
\<close>

lemma has_includes_read_seenIds:
  "has_includes (read_seenIds s) \<longleftrightarrow>
     femmoraSeenQuizQuestions s = None
   \<or> femmoraSeenQuizQuestions s = Some []
   \<or> (\<exists>stored. femmoraSeenQuizQuestions s = Some stored
        \<and> (JSON_parse stored = None
            \<or> (\<exists>vs. JSON_parse stored = Some (JArr vs))
            \<or> (\<exists>t. JSON_parse stored = Some (JStr t))))"
proof (cases "femmoraSeenQuizQuestions s")
  case None
  then show ?thesis
    by (simp add: read_seenIds_def)
next
  case (Some stored)
  show ?thesis
  proof (cases "JSON_parse stored")
    case None
    with Some show ?thesis
      by (simp add: read_seenIds_def)
  next
    case (Some v)
    with \<open>femmoraSeenQuizQuestions s = Some stored\<close> show ?thesis
      by (cases v) (simp_all add: read_seenIds_def)
  qed
qed

lemma startNewQuiz_completes_iff:
  assumes "pool q \<noteq> []"
  shows "(\<exists>q'. startNewQuiz engine rnd q = Inr q') \<longleftrightarrow> has_includes (read_seenIds (ls q))"
proof (cases "has_includes (read_seenIds (ls q))")
  case True
  then show ?thesis
    by (cases "length (filter (\<lambda>x. \<not> is_seen (read_seenIds (ls q)) (qid x)) (pool q))
                 < QUESTIONS_PER_BATCH")
       (simp_all add: startNewQuiz_reset startNewQuiz_unseen)
next
  case False
  then show ?thesis
    using assms by (simp add: startNewQuiz_TypeError)
qed

lemma handleNextQuestion_SyntaxError:
  "femmoraSeenQuizQuestions (ls q) = Some t \<Longrightarrow> t \<noteq> [] \<Longrightarrow> JSON_parse t = None \<Longrightarrow>
   handleNextQuestion q = Inl SyntaxError"
  by (simp add: handleNextQuestion_def)

section \<open>Example inputs\<close>

definition empty_storage :: localStorage where
  "empty_storage =
     \<lparr>femmoraUser = None, femmoraLanguage = None, femmoraSeenQuizQuestions = None\<rparr>"

text \<open>An engine that calls the comparator twice, and a random source of negative results.\<close>

definition example_engine :: "QuizQuestion engine" where
  "example_engine xs = Compare (Compare (Done [(0, 1), (2, 3)]) (Done [(0, 1)])) (Done [])"

definition all_negative :: "bool stream" where
  "all_negative = sconst True"


definition seen_sixteen :: jsstring where
  "seen_sixteen =
     js ''[\"gk1\",\"gk2\",\"gk3\",\"gk4\",\"logic1\",\"logic2\",\"logic3\",\"logic4\",\"math1\",\"math2\",\"math3\",\"math4\",\"sci1\",\"sci2\",\"sci3\",\"sci4\"]''"

definition seen_corrupt :: jsstring where
  "seen_corrupt = js ''gk1,gk2''"

definition quiz_with :: "jsstring \<Rightarrow> quiz" where
  "quiz_with record =
     BrainQuizzesScreen_initial (empty_storage\<lparr>femmoraSeenQuizQuestions := Some record\<rparr>)"


lemma JSON_parse_seen_sixteen:
  "JSON_parse seen_sixteen =
     Some (JArr (map (\<lambda>i. JStr (js i))
       [''gk1'', ''gk2'', ''gk3'', ''gk4'', ''logic1'', ''logic2'', ''logic3'', ''logic4'',
        ''math1'', ''math2'', ''math3'', ''math4'', ''sci1'', ''sci2'', ''sci3'', ''sci4'']))"
  by (simp add: seen_sixteen_def JSON_parse_def js_def is_ws_def is_digit_def)

lemma JSON_parse_seen_corrupt: "JSON_parse seen_corrupt = None"
  by (simp add: seen_corrupt_def JSON_parse_def js_def is_ws_def is_digit_def)

text \<open>Evaluation on the ids: a rearrangement commutes with reading a field.\<close>

lemma run_example_engine: "run (example_engine xs) all_negative = [(0, 1), (2, 3)]"
  by (simp add: example_engine_def all_negative_def)

lemma map_exchange: "map f (exchange p xs) = exchange p (map f xs)"
  by (cases p) (simp add: exchange_def map_update)

lemma map_rearrange: "map f (rearrange es xs) = rearrange es (map f xs)"
  unfolding rearrange_def by (induction es arbitrary: xs) (simp_all add: map_exchange)

lemma unseen_ids:
  "map qid (filter (\<lambda>x. \<not> is_seen v (qid x)) xs) = filter (\<lambda>i. \<not> is_seen v i) (map qid xs)"
  by (simp add: filter_map comp_def)




lemma read_seen_sixteen:
  "read_seenIds (ls (quiz_with seen_sixteen)) =
     JArr (map (\<lambda>i. JStr (js i))
       [''gk1'', ''gk2'', ''gk3'', ''gk4'', ''logic1'', ''logic2'', ''logic3'', ''logic4'',
        ''math1'', ''math2'', ''math3'', ''math4'', ''sci1'', ''sci2'', ''sci3'', ''sci4''])"
proof -
  have "seen_sixteen \<noteq> []" by (simp add: seen_sixteen_def js_def)
  then show ?thesis
    by (simp add: quiz_with_def BrainQuizzesScreen_initial_def read_seenIds_def
        JSON_parse_seen_sixteen del: list.map)
qed

lemma sixteen_unseen_ids:
  "map qid (filter (\<lambda>x. \<not> is_seen (read_seenIds (ls (quiz_with seen_sixteen))) (qid x)) allMockQuestions)
    = map js [''gk5'', ''logic5'', ''math5'', ''sci5'']"
  unfolding unseen_ids allMockQuestions_ids read_seen_sixteen
  by (simp add: is_seen_def js_eq_iff)

lemma read_seen_corrupt: "read_seenIds (ls (quiz_with seen_corrupt)) = JArr []"
  by (simp add: quiz_with_def BrainQuizzesScreen_initial_def read_seenIds_def JSON_parse_seen_corrupt)

definition quiz_selected :: quiz where
  "quiz_selected =
     (BrainQuizzesScreen_initial empty_storage)
       \<lparr>quizState := active, currentQuestions := take 5 allMockQuestions,
        selectedAnswer := Some \<lparr>option_text = js ''New Delhi'', isCorrect = True\<rparr>\<rparr>"

definition demo_user :: User where
  "demo_user = \<lparr>user_id = js ''1'', user_name = js ''Demo User'', user_email = js ''user@example.com''\<rparr>"

text \<open>A stored session record that was cut short.\<close>

definition user_corrupt :: jsstring where
  "user_corrupt = js ''{\"id\":\"1\"''"

definition UI_TEXT_sample :: Translations where
  "UI_TEXT_sample =
     [(js ''login'', [(Language_EN, js ''Login''), (Language_HI, []), (Language_TA, js ''Ulnuzhai'')]),
      (js ''register'', [(Language_EN, js ''Register'')])]"

definition example_app :: app where
  "example_app =
     \<lparr>form = \<lparr>name = js ''Asha'', email = js ''asha@example.com'', password = js ''secret'',
               confirmPassword = js ''secrte'', error = []\<rparr>,
      session = \<lparr>isAuthenticated = False, user = JNull, loading = False\<rparr>,
      storage = empty_storage, route = LOGIN\<rparr>"

lemma JSON_stringify_User_nonempty: "JSON_stringify (User_json u) \<noteq> []"
  by (simp add: User_json_def)

lemma JSON_parse_user_corrupt: "JSON_parse user_corrupt = None"
  by (simp add: user_corrupt_def JSON_parse_def js_def is_ws_def is_digit_def)

section \<open>The records the screen writes are read back\<close>

text \<open>The tokens of a JSON array of strings, without its brackets.\<close>

fun id_tokens :: "jsstring list \<Rightarrow> token list" where
  "id_tokens [] = []"
| "id_tokens (s # ss) = TStr s # concat (map (\<lambda>t. [TComma, TStr t]) ss)"

text \<open>
  \<open>record_of_ids s ids\<close>: the seen-question record is as the screen leaves it, absent or the
  text \<open>JSON.stringify\<close> gives for the array of the strings \<open>ids\<close>.
\<close>

definition record_of_ids :: "localStorage \<Rightarrow> jsstring list \<Rightarrow> bool" where
  "record_of_ids s ids =
     (femmoraSeenQuizQuestions s = None \<and> ids = []
      \<or> femmoraSeenQuizQuestions s = Some (JSON_stringify (JArr (map JStr ids))))"

lemma lex_comma: "lex (0x2C # rest) = map_option (Cons TComma) (lex rest)"
  by (simp add: is_ws_def)

lemma join_comma_map:
  "join_comma (map f (x # xs)) @ rest = f x @ concat (map (\<lambda>y. 0x2C # f y) xs) @ rest"
  by (induction xs arbitrary: x) simp_all

lemma lex_comma_id:
  "lex (0x2C # QuoteJSONString s @ rest) =
     map_option (Cons TComma) (map_option (Cons (TStr s)) (lex rest))"
  by (simp only: lex_comma lex_QuoteJSONString)

lemma lex_more_ids:
  "lex (concat (map (\<lambda>t. 0x2C # QuoteJSONString t) ss) @ rest) =
     map_option ((@) (concat (map (\<lambda>t. [TComma, TStr t]) ss))) (lex rest)"
proof (induction ss)
  case Nil
  show ?case by (cases "lex rest") simp_all
next
  case (Cons s ss)
  show ?case
    by (cases "lex rest") (simp_all del: lex.simps add: lex_comma_id Cons.IH)
qed

lemma lex_ids:
  "lex (join_comma (map QuoteJSONString ss) @ rest) = map_option ((@) (id_tokens ss)) (lex rest)"
proof (cases ss)
  case Nil
  then show ?thesis by (cases "lex rest") simp_all
next
  case (Cons s ss')
  show ?thesis
    unfolding Cons join_comma_map
    by (cases "lex rest") (simp_all del: lex.simps add: lex_QuoteJSONString lex_more_ids)
qed

lemma parse_more_ids:
  "parse_tokens CommaOrClose (InArr vs # st) (concat (map (\<lambda>t. [TComma, TStr t]) ss) @ rest) =
     parse_tokens CommaOrClose (InArr (rev (map JStr ss) @ vs) # st) rest"
  by (induction ss arbitrary: vs) simp_all

lemma JSON_stringify_ids:
  "JSON_stringify (JArr (map JStr ss)) = 0x5B # join_comma (map QuoteJSONString ss) @ [0x5D]"
  by (simp add: comp_def)

lemma JSON_parse_stringify_ids:
  "JSON_parse (JSON_stringify (JArr (map JStr ss))) = Some (JArr (map JStr ss))"
proof -
  have l: "lex (JSON_stringify (JArr (map JStr ss))) = Some (TLBrack # id_tokens ss @ [TRBrack])"
    unfolding JSON_stringify_ids by (simp add: is_ws_def lex_ids)
  show ?thesis
  proof (cases ss)
    case Nil
    with l show ?thesis by (simp add: JSON_parse_def)
  next
    case (Cons s ss')
    with l show ?thesis by (simp add: JSON_parse_def parse_more_ids)
  qed
qed

lemma JSON_stringify_ids_nonempty: "JSON_stringify (JArr vs) \<noteq> []"
  by simp

text \<open>
  On such a record the guarded read returns the ids, \<open>startNewQuiz\<close> returns a batch and
  leaves such a record, and \<open>handleNextQuestion\<close> returns and appends the current id unless it
  is there already.
\<close>

lemma read_record_of_ids:
  "record_of_ids s ids \<Longrightarrow> read_seenIds s = JArr (map JStr ids)"
  unfolding record_of_ids_def read_seenIds_def
  by (auto simp: JSON_parse_stringify_ids JSON_stringify_ids_nonempty simp del: JSON_stringify.simps)

lemma startNewQuiz_record_of_ids:
  assumes "record_of_ids (ls q) ids"
  shows "\<exists>q'. startNewQuiz engine rnd q = Inr q'
            \<and> (record_of_ids (ls q') ids \<or> record_of_ids (ls q') [])"
proof -
  have h: "has_includes (read_seenIds (ls q))"
    by (simp add: read_record_of_ids [OF assms])
  let ?unseen = "filter (\<lambda>x. \<not> is_seen (read_seenIds (ls q)) (qid x)) (pool q)"
  show ?thesis
  proof (cases "length ?unseen < QUESTIONS_PER_BATCH")
    case True
    show ?thesis
      by (simp add: startNewQuiz_reset [OF h True] record_of_ids_def)
  next
    case False
    show ?thesis
      using assms by (simp add: startNewQuiz_unseen [OF h False])
  qed
qed

lemma handleNextQuestion_record_of_ids:
  assumes "record_of_ids (ls q) ids"
    and "currentQuestionIndex q < length (currentQuestions q)"
  shows "\<exists>q'. handleNextQuestion q = Inr q'
            \<and> record_of_ids (ls q')
                 (if qid (currentQuestions q ! currentQuestionIndex q) \<in> set ids then ids
                  else ids @ [qid (currentQuestions q ! currentQuestionIndex q)])"
proof -
  let ?i = "qid (currentQuestions q ! currentQuestionIndex q)"
  have r: "(case femmoraSeenQuizQuestions (ls q) of
              None \<Rightarrow> Inr (JArr [])
            | Some seenIdsStr \<Rightarrow>
                if seenIdsStr = [] then Inr (JArr [])
                else (case JSON_parse seenIdsStr of
                        None \<Rightarrow> Inl SyntaxError
                      | Some v \<Rightarrow> Inr v)) = Inr (JArr (map JStr ids))"
    using assms(1) unfolding record_of_ids_def
    by (auto simp: JSON_parse_stringify_ids JSON_stringify_ids_nonempty simp del: JSON_stringify.simps)
  have m: "(JStr ?i \<in> set (map JStr ids)) = (?i \<in> set ids)"
    by auto
  show ?thesis
  proof (cases "?i \<in> set ids")
    case True
    with assms show ?thesis
      unfolding handleNextQuestion_def r
      by (simp add: Let_def m del: JSON_stringify.simps set_map)
  next
    case False
    have "map JStr ids @ [JStr ?i] = map JStr (ids @ [?i])"
      by simp
    with False assms(2) show ?thesis
      unfolding handleNextQuestion_def r
      by (simp add: Let_def m record_of_ids_def del: JSON_stringify.simps set_map map_append)
  qed
qed



section \<open>Claims\<close>

subsection \<open>C1: a batch is five questions with distinct ids\<close>




subsection \<open>C2: the reset policy\<close>

text \<open>
  C2. At \<open>startNewQuiz()\<close>, if fewer than \<open>BATCH_SIZE\<close> questions of the pool are unseen, the
  persisted record is cleared before the draw and the batch is drawn from the full pool;
  otherwise the record is left as it is and the batch is drawn from the unseen questions only.
  The clearing is done by \<open>getUnseenQuestions\<close>, whose result the sort and the slice then use.
\<close>

theorem startNewQuiz_reset_policy:
  assumes "has_includes (read_seenIds (ls q))"
  shows
    "(let unseen = filter (\<lambda>x. \<not> is_seen (read_seenIds (ls q)) (qid x)) (pool q) in
        (length unseen < QUESTIONS_PER_BATCH \<longrightarrow>
           getUnseenQuestions q =
             Inr (TheMockArray, q\<lparr>ls := (ls q)\<lparr>femmoraSeenQuizQuestions := None\<rparr>\<rparr>)
           \<and> (\<exists>q'. startNewQuiz engine rnd q = Inr q'
                 \<and> femmoraSeenQuizQuestions (ls q') = None
                 \<and> currentQuestions q' = take QUESTIONS_PER_BATCH (Array_sort engine rnd (pool q))))
      \<and> (\<not> length unseen < QUESTIONS_PER_BATCH \<longrightarrow>
           getUnseenQuestions q = Inr (NewArray unseen, q)
           \<and> (\<exists>q'. startNewQuiz engine rnd q = Inr q'
                 \<and> ls q' = ls q
                 \<and> currentQuestions q' = take QUESTIONS_PER_BATCH (Array_sort engine rnd unseen)
                 \<and> set (currentQuestions q') \<subseteq> set unseen)))"
proof -
  let ?unseen = "filter (\<lambda>x. \<not> is_seen (read_seenIds (ls q)) (qid x)) (pool q)"
  have g: "getUnseenQuestions q =
      (if length ?unseen < QUESTIONS_PER_BATCH
       then Inr (TheMockArray, q\<lparr>ls := (ls q)\<lparr>femmoraSeenQuizQuestions := None\<rparr>\<rparr>)
       else Inr (NewArray ?unseen, q))"
    using assms by (simp add: getUnseenQuestions_def filter_unseen_defined)
  have s: "set (take QUESTIONS_PER_BATCH (Array_sort engine rnd ?unseen)) \<subseteq> set ?unseen"
    using set_take_subset [of QUESTIONS_PER_BATCH "Array_sort engine rnd ?unseen"]
    by (simp only: set_Array_sort)
  show ?thesis
  proof (cases "length ?unseen < QUESTIONS_PER_BATCH")
    case True
    then show ?thesis
      by (simp add: Let_def g startNewQuiz_reset [OF assms True])
  next
    case False
    then show ?thesis
      using s by (simp add: Let_def g startNewQuiz_unseen [OF assms False])
  qed
qed

text \<open>Sixteen ids seen: four questions are left, the record is cleared, the full pool is used.\<close>

theorem startNewQuiz_reset_policy_witness:
  "has_includes (read_seenIds (ls (quiz_with seen_sixteen)))
   \<and> length (filter (\<lambda>x. \<not> is_seen (read_seenIds (ls (quiz_with seen_sixteen))) (qid x))
               (pool (quiz_with seen_sixteen))) = 4
   \<and> femmoraSeenQuizQuestions (ls (quiz_with seen_sixteen)) = Some seen_sixteen
   \<and> (\<exists>q'. startNewQuiz example_engine all_negative (quiz_with seen_sixteen) = Inr q'
         \<and> femmoraSeenQuizQuestions (ls q') = None
         \<and> map qid (currentQuestions q') = map js [''gk2'', ''gk1'', ''gk4'', ''gk3'', ''gk5''])"
proof -
  let ?q = "quiz_with seen_sixteen"
  have h: "has_includes (read_seenIds (ls ?q))"
    by (simp add: read_seen_sixteen)
  have p: "pool ?q = allMockQuestions"
    by (simp add: quiz_with_def BrainQuizzesScreen_initial_def)
  have len: "length (filter (\<lambda>x. \<not> is_seen (read_seenIds (ls ?q)) (qid x)) (pool ?q)) = 4"
    using arg_cong [OF sixteen_unseen_ids, of length] by (simp add: p)
  have st: "femmoraSeenQuizQuestions (ls ?q) = Some seen_sixteen"
    by (simp add: quiz_with_def BrainQuizzesScreen_initial_def)
  from startNewQuiz_reset_policy [OF h, of example_engine all_negative] len
  obtain q' where q': "startNewQuiz example_engine all_negative ?q = Inr q'"
      "femmoraSeenQuizQuestions (ls q') = None"
      "currentQuestions q' = take QUESTIONS_PER_BATCH (Array_sort example_engine all_negative (pool ?q))"
    by (auto simp: Let_def QUESTIONS_PER_BATCH_def)
  have "map qid (currentQuestions q') = take 5 (rearrange [(0, 1), (2, 3)] (map qid allMockQuestions))"
    by (simp add: q'(3) p take_map [symmetric] Array_sort_def run_example_engine map_rearrange
          QUESTIONS_PER_BATCH_def del: take_map)
  also have "\<dots> = map js [''gk2'', ''gk1'', ''gk4'', ''gk3'', ''gk5'']"
    unfolding allMockQuestions_ids by (simp add: rearrange_def exchange_def)
  finally show ?thesis
    using h len st q'(1,2) by blast
qed

subsection \<open>C3: the shuffle is not uniform\<close>

text \<open>
  C3 says that \<open>startNewQuiz()\<close> shuffles the unseen pool with a uniform random permutation and
  takes the first \<open>BATCH_SIZE\<close> elements. The slice is as stated (see C2). The shuffle is line
  188, a sort with a comparator that returns a random sign. Whatever the engine's sort does with
  those signs, the probability that an unseen pool of three or more questions ends in a given
  order is a multiple of a power of one half, and so never the \<open>1 / n!\<close> of a uniform
  permutation.
\<close>

theorem sort_random_comparator_not_uniform:
  "3 \<le> length xs \<Longrightarrow>
   shuffle_probability engine xs ys \<noteq> 1 / of_nat (fact (length xs))"
  unfolding shuffle_probability_def by (rule prob_not_uniform)

text \<open>
  The full pool under the example engine: it stays in its order with probability one half.
\<close>

theorem sort_random_comparator_not_uniform_witness:
  "3 \<le> length allMockQuestions
   \<and> shuffle_probability example_engine allMockQuestions allMockQuestions = 1 / 2
   \<and> shuffle_probability example_engine allMockQuestions allMockQuestions
       \<noteq> 1 / of_nat (fact (length allMockQuestions))"
proof -
  have n: "3 \<le> length allMockQuestions"
    by (simp add: length_allMockQuestions)
  have a: "rearrange [(0, 1), (2, 3)] allMockQuestions \<noteq> allMockQuestions"
  proof
    assume "rearrange [(0, 1), (2, 3)] allMockQuestions = allMockQuestions"
    then have "rearrange [(0, 1), (2, 3)] (map qid allMockQuestions) = map qid allMockQuestions"
      by (simp add: map_rearrange [symmetric])
    then show False
      unfolding allMockQuestions_ids by (simp add: rearrange_def exchange_def js_eq_iff)
  qed
  have b: "rearrange [(0, 1)] allMockQuestions \<noteq> allMockQuestions"
  proof
    assume "rearrange [(0, 1)] allMockQuestions = allMockQuestions"
    then have "rearrange [(0, 1)] (map qid allMockQuestions) = map qid allMockQuestions"
      by (simp add: map_rearrange [symmetric])
    then show False
      unfolding allMockQuestions_ids by (simp add: rearrange_def exchange_def js_eq_iff)
  qed
  have half: "shuffle_probability example_engine allMockQuestions allMockQuestions = 1 / 2"
    using a b by (simp add: shuffle_probability_def example_engine_def rearrange_def)
  from n half sort_random_comparator_not_uniform [OF n, of example_engine allMockQuestions]
  show ?thesis by (intro conjI)
qed

subsection \<open>C4: a record that is not JSON\<close>

text \<open>
  C4 says that \<open>startNewQuiz()\<close> and \<open>nextQuestion()\<close> catch every read or parse error of the
  stored record and go on as if nothing had been seen. \<open>getUnseenQuestions\<close> does so (lines
  166-174); \<open>handleNextQuestion\<close> parses the same record with no guard (line 219). With the
  record \<open>gk1,gk2\<close> a quiz starts, the record stays as it is (twenty unseen, no reset), the
  first question is answered and submitted from the screen, and the Next button then raises
  the \<open>SyntaxError\<close> of \<open>JSON.parse\<close>.
\<close>

theorem handleNextQuestion_propagates_SyntaxError:
  "\<exists>q1. startNewQuiz example_engine all_negative (quiz_with seen_corrupt) = Inr q1
        \<and> femmoraSeenQuizQuestions (ls q1) = Some seen_corrupt
        \<and> quizState q1 = active
        \<and> next_offered (click_submit (handleAnswerSelect (options (currentQuestions q1 ! 0) ! 0) q1))
        \<and> handleNextQuestion (click_submit (handleAnswerSelect (options (currentQuestions q1 ! 0) ! 0) q1))
            = Inl SyntaxError"
proof -
  let ?q = "quiz_with seen_corrupt"
  have h: "has_includes (read_seenIds (ls ?q))"
    by (simp add: read_seen_corrupt)
  have p: "pool ?q = allMockQuestions"
    by (simp add: quiz_with_def BrainQuizzesScreen_initial_def)
  have n: "\<not> length (filter (\<lambda>x. \<not> is_seen (read_seenIds (ls ?q)) (qid x)) (pool ?q)) < QUESTIONS_PER_BATCH"
    by (simp add: read_seen_corrupt is_seen_def p length_allMockQuestions QUESTIONS_PER_BATCH_def)
  define q1 where "q1 = ?q\<lparr>currentQuestions :=
              take QUESTIONS_PER_BATCH
                (Array_sort example_engine all_negative
                   (filter (\<lambda>x. \<not> is_seen (read_seenIds (ls ?q)) (qid x)) (pool ?q))),
            currentQuestionIndex := 0, score := 0, selectedAnswer := None,
            answerStatus := unanswered, quizState := active\<rparr>"
  have s: "startNewQuiz example_engine all_negative ?q = Inr q1"
    unfolding q1_def by (rule startNewQuiz_unseen [OF h n])
  have st: "femmoraSeenQuizQuestions (ls q1) = Some seen_corrupt"
    by (simp add: q1_def quiz_with_def BrainQuizzesScreen_initial_def)
  have ne: "seen_corrupt \<noteq> []"
    by (simp add: seen_corrupt_def js_def)
  let ?q3 = "click_submit (handleAnswerSelect (options (currentQuestions q1 ! 0) ! 0) q1)"
  have q3: "ls ?q3 = ls q1" "quizState ?q3 = active" "answerStatus ?q3 \<noteq> unanswered"
    by (simp_all add: click_submit_def submit_offered_def handleAnswerSelect_def
          handleSubmitAnswer_def q1_def)
  have "handleNextQuestion ?q3 = Inl SyntaxError"
    by (rule handleNextQuestion_SyntaxError [OF _ ne JSON_parse_seen_corrupt])
       (simp add: q3(1) st)
  with s st q3 show ?thesis
    by (auto simp: next_offered_def q1_def)
qed

subsection \<open>C5: submitting an answer\<close>

text \<open>
  C5 as stated ends with: once the status is correct or incorrect, further \<open>submitAnswer()\<close>
  calls change neither score nor status. \<open>handleSubmitAnswer\<close> has no test of the status: called
  again on the state it produced, it counts the correct answer a second time.
\<close>

theorem handleSubmitAnswer_again_counterexample:
  "answerStatus (handleSubmitAnswer quiz_selected) = correct
   \<and> score (handleSubmitAnswer quiz_selected) = 1
   \<and> score (handleSubmitAnswer (handleSubmitAnswer quiz_selected)) = 2"
  by (simp add: handleSubmitAnswer_def quiz_selected_def BrainQuizzesScreen_initial_def)

text \<open>
  C5 as amended. \<open>handleSubmitAnswer\<close> changes nothing when no answer is selected; with an
  answer selected it adds one to the score exactly when the option is correct and sets the status
  to correct or incorrect accordingly, whatever the status was. What makes the transition final
  is the screen: Submit is offered only while the status is unanswered, so after a submission
  from the screen a further click on it reaches no handler and changes nothing.
\<close>

theorem submitAnswer_amended:
  "(selectedAnswer q = None \<longrightarrow> handleSubmitAnswer q = q)
   \<and> (\<forall>a. selectedAnswer q = Some a \<longrightarrow>
          handleSubmitAnswer q =
            q\<lparr>score := (if isCorrect a then score q + 1 else score q),
               answerStatus := (if isCorrect a then correct else incorrect)\<rparr>)
   \<and> (submit_offered q \<longrightarrow>
          click_submit q = handleSubmitAnswer q
          \<and> answerStatus (click_submit q) \<noteq> unanswered
          \<and> \<not> submit_offered (click_submit q)
          \<and> click_submit (click_submit q) = click_submit q)
   \<and> (answerStatus q \<noteq> unanswered \<longrightarrow> \<not> submit_offered q \<and> click_submit q = q)"
  by (auto simp: handleSubmitAnswer_def click_submit_def submit_offered_def split: option.splits)

theorem submitAnswer_amended_witness:
  "selectedAnswer quiz_selected = Some \<lparr>option_text = js ''New Delhi'', isCorrect = True\<rparr>
   \<and> submit_offered quiz_selected
   \<and> click_submit quiz_selected = quiz_selected\<lparr>score := 1, answerStatus := correct\<rparr>
   \<and> click_submit (click_submit quiz_selected) = click_submit quiz_selected
   \<and> selectedAnswer (BrainQuizzesScreen_initial empty_storage) = None
   \<and> handleSubmitAnswer (BrainQuizzesScreen_initial empty_storage)
       = BrainQuizzesScreen_initial empty_storage"
proof -
  have s: "selectedAnswer quiz_selected = Some \<lparr>option_text = js ''New Delhi'', isCorrect = True\<rparr>"
    and o: "submit_offered quiz_selected"
    and z: "score quiz_selected = 0"
    by (simp_all add: quiz_selected_def BrainQuizzesScreen_initial_def submit_offered_def)
  have n: "selectedAnswer (BrainQuizzesScreen_initial empty_storage) = None"
    by (simp add: BrainQuizzesScreen_initial_def)
  from submitAnswer_amended [of quiz_selected] s o
  have c: "click_submit quiz_selected = handleSubmitAnswer quiz_selected"
    and i: "click_submit (click_submit quiz_selected) = click_submit quiz_selected"
    and v: "handleSubmitAnswer quiz_selected =
        quiz_selected\<lparr>score := score quiz_selected + 1, answerStatus := correct\<rparr>"
    by auto
  from submitAnswer_amended [of "BrainQuizzesScreen_initial empty_storage"] n
  have e: "handleSubmitAnswer (BrainQuizzesScreen_initial empty_storage)
       = BrainQuizzesScreen_initial empty_storage"
    by simp
  have "click_submit quiz_selected = quiz_selected\<lparr>score := 1, answerStatus := correct\<rparr>"
    by (simp add: c v z)
  with s o n i e show ?thesis
    by (intro conjI)
qed

subsection \<open>C6: login, then restart\<close>

text \<open>
  C6. For every user \<open>u\<close>, \<open>login(u)\<close> followed by a restart (the provider mounted again on the
  storage that \<open>login\<close> left) yields \<open>isAuthenticated = true\<close> and \<open>user = u\<close> if and only if the
  persisted record parses; when a record does not parse, the store starts unauthenticated.
  The record \<open>login\<close> writes always parses, to \<open>u\<close>, so both sides of the equivalence hold; a
  record that does not parse is removed and leaves no user.
\<close>

theorem login_then_restart:
  "(case login u (a, s) of (a1, s1) \<Rightarrow>
      femmoraUser s1 = Some (JSON_stringify (User_json u))
      \<and> JSON_parse (JSON_stringify (User_json u)) = Some (User_json u)
      \<and> ((isAuthenticated (fst (AuthProvider_mount s1))
           \<and> user (fst (AuthProvider_mount s1)) = User_json u)
          \<longleftrightarrow> (\<exists>r v. femmoraUser s1 = Some r \<and> JSON_parse r = Some v))
      \<and> isAuthenticated (fst (AuthProvider_mount s1))
      \<and> user (fst (AuthProvider_mount s1)) = User_json u)
   \<and> (\<forall>r. r \<noteq> [] \<and> JSON_parse r = None \<longrightarrow>
          \<not> isAuthenticated (fst (AuthProvider_mount (s\<lparr>femmoraUser := Some r\<rparr>)))
          \<and> user (fst (AuthProvider_mount (s\<lparr>femmoraUser := Some r\<rparr>))) = JNull
          \<and> femmoraUser (snd (AuthProvider_mount (s\<lparr>femmoraUser := Some r\<rparr>))) = None)
   \<and> (\<forall>r v. r \<noteq> [] \<and> JSON_parse r = Some v \<longrightarrow>
          isAuthenticated (fst (AuthProvider_mount (s\<lparr>femmoraUser := Some r\<rparr>)))
          \<and> user (fst (AuthProvider_mount (s\<lparr>femmoraUser := Some r\<rparr>))) = v)"
  by (simp add: login_def AuthProvider_mount_def AuthProvider_initial_def
        JSON_parse_stringify_User JSON_stringify_User_nonempty)

theorem login_then_restart_witness:
  "user_corrupt \<noteq> [] \<and> JSON_parse user_corrupt = None
   \<and> \<not> isAuthenticated (fst (AuthProvider_mount (empty_storage\<lparr>femmoraUser := Some user_corrupt\<rparr>)))
   \<and> femmoraUser (snd (AuthProvider_mount (empty_storage\<lparr>femmoraUser := Some user_corrupt\<rparr>))) = None
   \<and> femmoraUser (snd (login demo_user (AuthProvider_initial, empty_storage)))
       = Some (js ''{\"id\":\"1\",\"name\":\"Demo User\",\"email\":\"user@example.com\"}'')
   \<and> isAuthenticated (fst (AuthProvider_mount (snd (login demo_user (AuthProvider_initial, empty_storage)))))
   \<and> user (fst (AuthProvider_mount (snd (login demo_user (AuthProvider_initial, empty_storage)))))
       = User_json demo_user"
proof -
  have ne: "user_corrupt \<noteq> []"
    by (simp add: user_corrupt_def js_Nil_iff)
  have w: "JSON_stringify (User_json demo_user)
      = js ''{\"id\":\"1\",\"name\":\"Demo User\",\"email\":\"user@example.com\"}''"
    by (simp add: User_json_def demo_user_def QuoteJSONString_def quote_unit_def js_def
          is_high_surrogate_def is_low_surrogate_def)
  from login_then_restart [of demo_user AuthProvider_initial empty_storage]
  have "femmoraUser (snd (login demo_user (AuthProvider_initial, empty_storage)))
          = Some (JSON_stringify (User_json demo_user))"
    and "isAuthenticated (fst (AuthProvider_mount (snd (login demo_user (AuthProvider_initial, empty_storage)))))"
    and "user (fst (AuthProvider_mount (snd (login demo_user (AuthProvider_initial, empty_storage)))))
          = User_json demo_user"
    and "\<not> isAuthenticated (fst (AuthProvider_mount (empty_storage\<lparr>femmoraUser := Some user_corrupt\<rparr>)))"
    and "femmoraUser (snd (AuthProvider_mount (empty_storage\<lparr>femmoraUser := Some user_corrupt\<rparr>))) = None"
    using ne JSON_parse_user_corrupt by (auto split: prod.splits)
  then show ?thesis
    using ne JSON_parse_user_corrupt by (simp add: w)
qed

subsection \<open>C7: translate\<close>

text \<open>
  C7 as stated: for every key, every current language and every optional default text,
  \<open>translate\<close> does not throw and returns a non-empty string. Two inputs refute it, whatever the
  engine's built-ins are. The last resort of line 60 is the key itself, so the empty key with no
  default text comes back as the empty string, in English. And with the current language
  \<open>toString\<close> (a stored language is restored unvalidated) the read \<open>translationsForKey[language]\<close> of
  line 56 finds the function every object inherits, which is truthy and is returned: the result
  for the key \<open>login\<close> is not a string.
\<close>

theorem translate_counterexample:
  "\<forall>builtin.
      map_of UI_TEXT_sample [] = None
    \<and> [] \<notin> set Object_prototype_names
    \<and> translate builtin UI_TEXT_sample Language_EN [] None = Inr (JSstring [])
    \<and> LanguageProvider_init (empty_storage\<lparr>femmoraLanguage := Some (js ''toString'')\<rparr>) = js ''toString''
    \<and> translate builtin UI_TEXT_sample (js ''toString'') (js ''login'') None = Inr (JSother True)"
  by (simp add: translate_def get_translation_def UI_TEXT_sample_def Object_prototype_names_def
      LanguageProvider_init_def empty_storage_def Language_EN_def Language_HI_def Language_TA_def
      js_eq_iff js_Nil_iff Nil_js_iff)

text \<open>
  C7 as amended. \<open>translate\<close> does not throw and returns a string, in every case but the two below:
  the table's string for the key and the language when there is one and it is not empty,
  otherwise the default text when one is given and not empty, otherwise the key; that string is
  not empty whenever the key is not empty or a non-empty default text is given. The two cases
  are reads that find a member inherited from \<open>Object.prototype\<close>. When the table has the key,
  its entry has no string of its own for the current language and the language names an
  inherited member, the result is that member, not a string. When the table does not have the
  key and the key names an inherited member, the result is the engine's value of that member's
  property \<open>language\<close> when it is truthy (or the exception of that read), and the default text or
  the key otherwise.
\<close>

theorem translate_amended:
  "((map_of UI_TEXT key = None \<longrightarrow> key \<notin> set Object_prototype_names)
      \<and> (\<forall>ts. map_of UI_TEXT key = Some ts \<and> map_of ts language = None
              \<longrightarrow> language \<notin> set Object_prototype_names) \<longrightarrow>
      translate builtin UI_TEXT language key defaultText =
        Inr (JSstring
               (if \<exists>ts t. map_of UI_TEXT key = Some ts \<and> map_of ts language = Some t \<and> t \<noteq> []
                then the (map_of (the (map_of UI_TEXT key)) language)
                else if \<exists>d. defaultText = Some d \<and> d \<noteq> [] then the defaultText
                else key))
      \<and> (key \<noteq> [] \<or> (\<exists>d. defaultText = Some d \<and> d \<noteq> []) \<longrightarrow>
           translate builtin UI_TEXT language key defaultText \<noteq> Inr (JSstring [])))
   \<and> ((\<exists>ts. map_of UI_TEXT key = Some ts \<and> map_of ts language = None)
        \<and> language \<in> set Object_prototype_names \<longrightarrow>
      translate builtin UI_TEXT language key defaultText = Inr (JSother True))
   \<and> (map_of UI_TEXT key = None \<and> key \<in> set Object_prototype_names \<longrightarrow>
      translate builtin UI_TEXT language key defaultText =
        (case builtin key language of
           Inl e \<Rightarrow> Inl e
         | Inr v \<Rightarrow>
             if truthy v then Inr v
             else Inr (JSstring (if \<exists>d. defaultText = Some d \<and> d \<noteq> [] then the defaultText
                                 else key))))"
proof (intro conjI impI)
  assume h: "(map_of UI_TEXT key = None \<longrightarrow> key \<notin> set Object_prototype_names)
      \<and> (\<forall>ts. map_of UI_TEXT key = Some ts \<and> map_of ts language = None
              \<longrightarrow> language \<notin> set Object_prototype_names)"
  then show "translate builtin UI_TEXT language key defaultText =
        Inr (JSstring
               (if \<exists>ts t. map_of UI_TEXT key = Some ts \<and> map_of ts language = Some t \<and> t \<noteq> []
                then the (map_of (the (map_of UI_TEXT key)) language)
                else if \<exists>d. defaultText = Some d \<and> d \<noteq> [] then the defaultText
                else key))"
    by (auto simp: translate_def get_translation_def Let_def split: option.splits)
  assume "key \<noteq> [] \<or> (\<exists>d. defaultText = Some d \<and> d \<noteq> [])"
  with h show "translate builtin UI_TEXT language key defaultText \<noteq> Inr (JSstring [])"
    by (auto simp: translate_def get_translation_def Let_def split: option.splits)
next
  assume "(\<exists>ts. map_of UI_TEXT key = Some ts \<and> map_of ts language = None)
        \<and> language \<in> set Object_prototype_names"
  then show "translate builtin UI_TEXT language key defaultText = Inr (JSother True)"
    by (auto simp: translate_def get_translation_def Let_def)
next
  assume "map_of UI_TEXT key = None \<and> key \<in> set Object_prototype_names"
  then show "translate builtin UI_TEXT language key defaultText =
        (case builtin key language of
           Inl e \<Rightarrow> Inl e
         | Inr v \<Rightarrow>
             if truthy v then Inr v
             else Inr (JSstring (if \<exists>d. defaultText = Some d \<and> d \<noteq> [] then the defaultText
                                 else key)))"
    by (auto simp: translate_def Let_def split: option.splits sum.splits)
qed

theorem translate_amended_witness:
  "\<forall>builtin.
      map_of UI_TEXT_sample (js ''login'')
        = Some [(Language_EN, js ''Login''), (Language_HI, []), (Language_TA, js ''Ulnuzhai'')]
    \<and> map_of [(Language_EN, js ''Login''), (Language_HI, []), (Language_TA, js ''Ulnuzhai'')]
         Language_HI = Some []
    \<and> js ''login'' \<noteq> []
    \<and> translate builtin UI_TEXT_sample Language_EN (js ''login'') None = Inr (JSstring (js ''Login''))
    \<and> translate builtin UI_TEXT_sample Language_HI (js ''login'') None = Inr (JSstring (js ''login''))
    \<and> translate builtin UI_TEXT_sample Language_HI (js ''login'') (Some (js ''Log in''))
        = Inr (JSstring (js ''Log in''))
    \<and> translate builtin UI_TEXT_sample Language_HI (js ''login'') None \<noteq> Inr (JSstring [])
    \<and> js ''valueOf'' \<in> set Object_prototype_names
    \<and> map_of UI_TEXT_sample (js ''register'') = Some [(Language_EN, js ''Register'')]
    \<and> map_of [(Language_EN, js ''Register'')] (js ''valueOf'') = None
    \<and> translate builtin UI_TEXT_sample (js ''valueOf'') (js ''register'') None = Inr (JSother True)
    \<and> js ''constructor'' \<in> set Object_prototype_names
    \<and> map_of UI_TEXT_sample (js ''constructor'') = None
    \<and> translate builtin UI_TEXT_sample Language_EN (js ''constructor'') None
        = (case builtin (js ''constructor'') Language_EN of
             Inl e \<Rightarrow> Inl e
           | Inr v \<Rightarrow> if truthy v then Inr v else Inr (JSstring (js ''constructor'')))"
proof
  fix builtin :: "jsstring \<Rightarrow> jsstring \<Rightarrow> js_error + jsvalue"
  have k: "js ''login'' \<noteq> []"
    by (simp add: js_Nil_iff)
  have l: "Language_HI \<noteq> Language_EN" "Language_TA \<noteq> Language_EN" "Language_HI \<noteq> Language_TA"
    by (simp_all add: Language_EN_def Language_HI_def Language_TA_def js_eq_iff)
  have n: "js ''valueOf'' \<in> set Object_prototype_names"
      "js ''constructor'' \<in> set Object_prototype_names"
    by (simp_all add: Object_prototype_names_def)
  have m: "map_of UI_TEXT_sample (js ''login'')
        = Some [(Language_EN, js ''Login''), (Language_HI, []), (Language_TA, js ''Ulnuzhai'')]"
      "map_of [(Language_EN, js ''Login''), (Language_HI, []), (Language_TA, js ''Ulnuzhai'')]
         Language_HI = Some []"
      "map_of UI_TEXT_sample (js ''register'') = Some [(Language_EN, js ''Register'')]"
      "map_of [(Language_EN, js ''Register'')] (js ''valueOf'') = None"
      "map_of UI_TEXT_sample (js ''constructor'') = None"
    using l by (simp_all add: UI_TEXT_sample_def Language_EN_def js_eq_iff)
  have e: "translate builtin UI_TEXT_sample Language_EN (js ''login'') None = Inr (JSstring (js ''Login''))"
      "translate builtin UI_TEXT_sample Language_HI (js ''login'') None = Inr (JSstring (js ''login''))"
      "translate builtin UI_TEXT_sample Language_HI (js ''login'') (Some (js ''Log in''))
         = Inr (JSstring (js ''Log in''))"
    using l by (simp_all add: translate_def get_translation_def UI_TEXT_sample_def js_eq_iff
        js_Nil_iff Nil_js_iff)
  from translate_amended [of UI_TEXT_sample "js ''login''" Language_HI builtin None] k m
  have a: "translate builtin UI_TEXT_sample Language_HI (js ''login'') None \<noteq> Inr (JSstring [])"
    by simp
  from translate_amended [of UI_TEXT_sample "js ''register''" "js ''valueOf''" builtin None] n m
  have b: "translate builtin UI_TEXT_sample (js ''valueOf'') (js ''register'') None = Inr (JSother True)"
    by simp
  from translate_amended [of UI_TEXT_sample "js ''constructor''" Language_EN builtin None] n m
  have c: "translate builtin UI_TEXT_sample Language_EN (js ''constructor'') None
        = (case builtin (js ''constructor'') Language_EN of
             Inl e \<Rightarrow> Inl e
           | Inr v \<Rightarrow> if truthy v then Inr v else Inr (JSstring (js ''constructor'')))"
    by simp
  from k n m e a b c
  show "map_of UI_TEXT_sample (js ''login'')
        = Some [(Language_EN, js ''Login''), (Language_HI, []), (Language_TA, js ''Ulnuzhai'')]
    \<and> map_of [(Language_EN, js ''Login''), (Language_HI, []), (Language_TA, js ''Ulnuzhai'')]
         Language_HI = Some []
    \<and> js ''login'' \<noteq> []
    \<and> translate builtin UI_TEXT_sample Language_EN (js ''login'') None = Inr (JSstring (js ''Login''))
    \<and> translate builtin UI_TEXT_sample Language_HI (js ''login'') None = Inr (JSstring (js ''login''))
    \<and> translate builtin UI_TEXT_sample Language_HI (js ''login'') (Some (js ''Log in''))
        = Inr (JSstring (js ''Log in''))
    \<and> translate builtin UI_TEXT_sample Language_HI (js ''login'') None \<noteq> Inr (JSstring [])
    \<and> js ''valueOf'' \<in> set Object_prototype_names
    \<and> map_of UI_TEXT_sample (js ''register'') = Some [(Language_EN, js ''Register'')]
    \<and> map_of [(Language_EN, js ''Register'')] (js ''valueOf'') = None
    \<and> translate builtin UI_TEXT_sample (js ''valueOf'') (js ''register'') None = Inr (JSother True)
    \<and> js ''constructor'' \<in> set Object_prototype_names
    \<and> map_of UI_TEXT_sample (js ''constructor'') = None
    \<and> translate builtin UI_TEXT_sample Language_EN (js ''constructor'') None
        = (case builtin (js ''constructor'') Language_EN of
             Inl e \<Rightarrow> Inl e
           | Inr v \<Rightarrow> if truthy v then Inr v else Inr (JSstring (js ''constructor'')))"
    by blast
qed

subsection \<open>C8: the initial language\<close>

text \<open>
  C8 as stated: the current language is EN whenever the stored value is absent or is not one of
  the valid codes. Lines 32-33 cast the stored string and take it unless it is falsy, so a
  stored \<open>fr\<close> becomes the current language.
\<close>

theorem LanguageProvider_init_counterexample:
  "js ''fr'' \<notin> {Language_EN, Language_HI, Language_TA}
   \<and> LanguageProvider_init (empty_storage\<lparr>femmoraLanguage := Some (js ''fr'')\<rparr>) = js ''fr''
   \<and> LanguageProvider_init (empty_storage\<lparr>femmoraLanguage := Some (js ''fr'')\<rparr>) \<noteq> Language_EN"
  by (simp add: LanguageProvider_init_def empty_storage_def Language_EN_def Language_HI_def
        Language_TA_def js_eq_iff js_Nil_iff)

text \<open>
  C8 as amended. The current language is EN when the stored value is absent or the empty
  string; every other stored string is restored as it is, one of the valid codes or not.
\<close>

theorem LanguageProvider_init_amended:
  "(femmoraLanguage s = None \<or> femmoraLanguage s = Some [] \<longrightarrow>
      LanguageProvider_init s = Language_EN)
   \<and> (\<forall>c. femmoraLanguage s = Some c \<and> c \<noteq> [] \<longrightarrow> LanguageProvider_init s = c)
   \<and> (\<forall>c \<in> {Language_EN, Language_HI, Language_TA}.
         LanguageProvider_init (s\<lparr>femmoraLanguage := Some c\<rparr>) = c)"
  by (auto simp: LanguageProvider_init_def Language_EN_def Language_HI_def Language_TA_def
        js_Nil_iff)

theorem LanguageProvider_init_amended_witness:
  "femmoraLanguage empty_storage = None
   \<and> LanguageProvider_init empty_storage = Language_EN
   \<and> Language_TA \<in> {Language_EN, Language_HI, Language_TA}
   \<and> LanguageProvider_init (empty_storage\<lparr>femmoraLanguage := Some Language_TA\<rparr>) = Language_TA"
proof -
  have n: "femmoraLanguage empty_storage = None"
    by (simp add: empty_storage_def)
  from LanguageProvider_init_amended [of empty_storage] n
  have "LanguageProvider_init empty_storage = Language_EN"
    and "LanguageProvider_init (empty_storage\<lparr>femmoraLanguage := Some Language_TA\<rparr>) = Language_TA"
    by simp_all
  with n show ?thesis by simp
qed

subsection \<open>C9: a registration that does not validate\<close>

text \<open>
  C9. When the password and its confirmation differ, or the name, the email or the password is
  empty, \<open>handleSubmit\<close> sets an error message and returns: it calls neither \<open>login\<close> nor
  \<open>navigate\<close>, so the session, the durable storage and the route are as they were, and the
  only change is the message.
\<close>

theorem registration_validation:
  "password (form a) \<noteq> confirmPassword (form a)
     \<or> name (form a) = [] \<or> email (form a) = [] \<or> password (form a) = [] \<Longrightarrow>
   snd (handleSubmit now (form a)) = []
   \<and> error (fst (handleSubmit now (form a))) =
       (if password (form a) \<noteq> confirmPassword (form a) then js ''Passwords do not match.''
        else js ''Please fill in all fields.'')
   \<and> error (fst (handleSubmit now (form a))) \<noteq> []
   \<and> submit_registration now a =
       a\<lparr>form := (form a)\<lparr>error := error (fst (handleSubmit now (form a)))\<rparr>\<rparr>
   \<and> session (submit_registration now a) = session a
   \<and> storage (submit_registration now a) = storage a
   \<and> route (submit_registration now a) = route a"
  by (auto simp: handleSubmit_def submit_registration_def js_def)

theorem registration_validation_witness:
  "password (form example_app) \<noteq> confirmPassword (form example_app)
   \<and> submit_registration (js ''1700000000000'') example_app =
       example_app\<lparr>form := (form example_app)\<lparr>error := js ''Passwords do not match.''\<rparr>\<rparr>
   \<and> session (submit_registration (js ''1700000000000'') example_app) = session example_app
   \<and> storage (submit_registration (js ''1700000000000'') example_app) = empty_storage"
proof -
  have h: "password (form example_app) \<noteq> confirmPassword (form example_app)"
    by (simp add: example_app_def js_eq_iff)
  then have "password (form example_app) \<noteq> confirmPassword (form example_app)
     \<or> name (form example_app) = [] \<or> email (form example_app) = []
     \<or> password (form example_app) = []"
    by simp
  from registration_validation [OF this, of "js ''1700000000000''"] h
  show ?thesis by (simp add: example_app_def)
qed



subsection \<open>C10: integrity of the static pool\<close>

text \<open>
  C10. Every question of the static pool \<open>allMockQuestions\<close> has exactly one option with
  \<open>isCorrect = true\<close>, and the ids of the pool are pairwise distinct.
\<close>

theorem allMockQuestions_integrity:
  "(\<forall>q \<in> set allMockQuestions. length (filter isCorrect (options q)) = 1)
   \<and> distinct (map qid allMockQuestions)"
  using allMockQuestions_one_correct distinct_allMockQuestions_ids
  by (simp add: list_all_iff)

text \<open>The eighth question, \<open>logic3\<close>: its one correct option is the third, "E".\<close>

theorem allMockQuestions_integrity_witness:
  "allMockQuestions ! 7 \<in> set allMockQuestions
   \<and> qid (allMockQuestions ! 7) = js ''logic3''
   \<and> filter isCorrect (options (allMockQuestions ! 7)) =
       [\<lparr>option_text = js ''E'', isCorrect = True\<rparr>]
   \<and> length (filter isCorrect (options (allMockQuestions ! 7))) = 1"
proof -
  have m: "allMockQuestions ! 7 \<in> set allMockQuestions"
    by (rule nth_mem) (simp add: length_allMockQuestions)
  from allMockQuestions_integrity m
  have "length (filter isCorrect (options (allMockQuestions ! 7))) = 1"
    by blast
  moreover have "qid (allMockQuestions ! 7) = js ''logic3''"
    by (simp add: allMockQuestions_def)
  moreover have "filter isCorrect (options (allMockQuestions ! 7)) =
      [\<lparr>option_text = js ''E'', isCorrect = True\<rparr>]"
    by (simp add: allMockQuestions_def)
  ultimately show ?thesis using m by simp
qed

end
